theory Spec2Isabelle
  imports Complex_Main "HOL-Library.AList" "HOL-Library.Log_Nat"
begin

section \<open>JavaScript values used by the signaling server\<close>

text \<open>
  The server (\<^verbatim>\<open>src/unnamed/part_000\<close>) keeps all of its state in JavaScript
  \<^verbatim>\<open>Map\<close>s. A \<^verbatim>\<open>Map\<close> iterates in insertion order, \<^verbatim>\<open>set\<close> on a present key
  keeps the key's position, \<^verbatim>\<open>set\<close> on a new key appends, \<^verbatim>\<open>delete\<close> removes
  the key. These are association lists with \<^const>\<open>AList.update\<close>,
  \<^const>\<open>AList.delete\<close> and \<^const>\<open>map_of\<close> for \<^verbatim>\<open>get\<close>/\<^verbatim>\<open>has\<close>.

  \<^verbatim>\<open>String.prototype.trim\<close> strips white space and line terminators from both
  ends; within the 8-bit characters of \<^typ>\<open>string\<close> these are TAB, LF, VT, FF,
  CR, space and the no-break space.
\<close>

definition is_ws :: "char \<Rightarrow> bool" where
  "is_ws c = (c \<in> set [CHR 0x09, CHR 0x0A, CHR 0x0B, CHR 0x0C, CHR 0x0D, CHR 0x20, CHR 0xA0])"

definition trim :: "string \<Rightarrow> string" where
  "trim s = rev (dropWhile is_ws (rev (dropWhile is_ws s)))"

section \<open>Data model\<close>

text \<open>
  A telemetry snapshot (\<^verbatim>\<open>emotion_data\<close>) is an array the server never looks
  into; a negotiation payload (SDP or ICE candidate) is opaque as well.
\<close>

type_synonym emotion_data = "string list"
type_synonym payload = string

record intel_entry =
  latest_emotion_data :: emotion_data
  emotion_history :: "emotion_data list"
  last_history_sample_time :: rat

text \<open>
  The room object of lines 123--133. A participant record is \<^verbatim>\<open>{ userName }\<close>, so
  \<open>members\<close> and \<open>pending\<close> map a socket id to the display name. \<open>expiryTimer\<close> is
  the handle returned by \<^verbatim>\<open>setTimeout\<close>; the model keeps in it the instant (in
  ms) at which the timer is due. \<^verbatim>\<open>expiryMinutes\<close> is a JavaScript number, taken
  here as an integer; \<open>scheduledAt\<close> is a time stamp in ms or \<^verbatim>\<open>null\<close>.
\<close>

record room =
  creatorId :: string
  password :: "string option"
  scheduledAt :: "int option"
  expiryMinutes :: int
  waitingRoom :: bool
  members :: "(string \<times> string) list"
  pending :: "(string \<times> string) list"
  expiryTimer :: "int option"
  intel :: "(string \<times> intel_entry) list"

text \<open>
  A live socket.io connection: the three fields the handlers stamp on the socket
  object, and \<open>sk_rooms\<close>, the socket.io rooms (broadcast channels) the socket has
  joined. socket.io puts every socket into the channel named by its own id when it
  connects; \<^verbatim>\<open>socket.join(r)\<close> adds channel \<open>r\<close>, \<^verbatim>\<open>socket.leave(r)\<close> removes it.
\<close>

record sock =
  sk_roomId :: "string option"
  sk_userName :: "string option"
  sk_isHost :: "bool option"
  sk_rooms :: "string list"

text \<open>
  The server: the global \<^verbatim>\<open>rooms\<close> map and the connected sockets
  (\<^verbatim>\<open>io.sockets.sockets\<close>).
\<close>

record server =
  rooms :: "(string \<times> room) list"
  sockets :: "(string \<times> sock) list"

text \<open>
  The options of a creating join, after the conversions of lines 118--128.
  \<open>opt_scheduledAt\<close> is the value of \<^verbatim>\<open>scheduledAt\<close> at line 118 when it is truthy,
  a time value in milliseconds, and \<open>None\<close> when it is falsy: \<^verbatim>\<open>null\<close> for an option
  that is absent or falsy, 0, or \<^verbatim>\<open>NaN\<close> for an option that \<^verbatim>\<open>new Date\<close> does not
  take for a time within the range of time values. The handlers only test the stored
  value for truthiness before they use it (lines 119 and 155).
\<close>

record room_options =
  opt_password :: "string option"
  opt_scheduledAt :: "int option"
  opt_expiryMinutes :: "int option"
  opt_waitingRoom :: bool

record join_payload =
  isCreator :: bool
  roomOptions :: "room_options option"
  jp_password :: "string option"

text \<open>The events the server emits to clients.\<close>

datatype event =
    ErrorMsg string
  | MeetingNotStarted int
  | RoomJoined string "(string \<times> string) list" bool string
  | WrongPassword
  | WaitingForHost
  | PendingJoin string string
  | ParticipantJoined string string
  | Admitted string "(string \<times> string) list" string
  | Rejected
  | Offer string payload
  | Answer string payload
  | IceCandidate string payload
  | MuteAudio
  | MuteAudioRequest
  | Kicked
  | ParticipantLeft string
  | MeetingEnded
  | SpotlightChanged "string option"
  | IntelDashboard "(string \<times> string \<times> emotion_data \<times> emotion_data list) list"
  | PendingLeft string

text \<open>
  Every handler returns the new server state and the deliveries it caused, in order:
  pairs of the receiving socket id and the event.
\<close>

type_synonym deliveries = "(string \<times> event) list"

section \<open>socket.io emission\<close>

text \<open>
  \<^verbatim>\<open>socket.emit\<close> sends to that socket. \<^verbatim>\<open>io.to(ch).emit\<close> and
  \<^verbatim>\<open>io.in(ch).emit\<close> send to every connected socket that is in channel \<open>ch\<close>;
  \<^verbatim>\<open>socket.to(ch).emit\<close> does the same but leaves the sending socket out. A channel
  nobody is in receives nothing. Session ids and meeting-room ids name channels of the
  same kind.
\<close>

definition in_channel :: "(string \<times> sock) list \<Rightarrow> string \<Rightarrow> string list" where
  "in_channel socks ch = map fst (filter (\<lambda>e. ch \<in> set (sk_rooms (snd e))) socks)"

definition socket_emit :: "string \<Rightarrow> event \<Rightarrow> deliveries" where
  "socket_emit sid ev = [(sid, ev)]"

definition io_to :: "(string \<times> sock) list \<Rightarrow> string \<Rightarrow> event \<Rightarrow> deliveries" where
  "io_to socks ch ev = map (\<lambda>i. (i, ev)) (in_channel socks ch)"

definition socket_to :: "(string \<times> sock) list \<Rightarrow> string \<Rightarrow> string \<Rightarrow> event \<Rightarrow> deliveries" where
  "socket_to socks sid ch ev = map (\<lambda>i. (i, ev)) (filter (\<lambda>i. i \<noteq> sid) (in_channel socks ch))"

definition socket_join :: "string \<Rightarrow> sock \<Rightarrow> sock" where
  "socket_join ch sk = (if ch \<in> set (sk_rooms sk) then sk else sk\<lparr>sk_rooms := sk_rooms sk @ [ch]\<rparr>)"

definition socket_leave :: "string \<Rightarrow> sock \<Rightarrow> sock" where
  "socket_leave ch sk = sk\<lparr>sk_rooms := removeAll ch (sk_rooms sk)\<rparr>"

definition set_sock :: "string \<Rightarrow> (sock \<Rightarrow> sock) \<Rightarrow> server \<Rightarrow> server" where
  "set_sock sid f s = s\<lparr>sockets := AList.map_entry sid f (sockets s)\<rparr>"

definition set_room :: "string \<Rightarrow> room \<Rightarrow> server \<Rightarrow> server" where
  "set_room rid r s = s\<lparr>rooms := AList.update rid r (rooms s)\<rparr>"

definition delete_room :: "string \<Rightarrow> server \<Rightarrow> server" where
  "delete_room rid s = s\<lparr>rooms := AList.delete rid (rooms s)\<rparr>"

section \<open>Room lookup and the expiry timer\<close>

definition DEFAULT_EXPIRY_MINUTES :: int where
  "DEFAULT_EXPIRY_MINUTES = 30"

text \<open>\<^verbatim>\<open>getRoomBySocket\<close>: the first room, in registry order, that has the socket as a member.\<close>

definition getRoomBySocket :: "server \<Rightarrow> string \<Rightarrow> (string \<times> room) option" where
  "getRoomBySocket s sid = find (\<lambda>e. map_of (members (snd e)) sid \<noteq> None) (rooms s)"

definition getRoomParticipants :: "room \<Rightarrow> (string \<times> string) list" where
  "getRoomParticipants r = members r"

definition clearExpiryTimer :: "room \<Rightarrow> room" where
  "clearExpiryTimer r = (if expiryTimer r = None then r else r\<lparr>expiryTimer := None\<rparr>)"

text \<open>
  \<^verbatim>\<open>setTimeout(f, d)\<close> of Node.js runs \<open>f\<close> once, no earlier than \<open>d\<close> ms later; a
  delay below 1 or above \<open>2^31 - 1\<close> is replaced by 1.
\<close>

definition TIMEOUT_MAX :: int where
  "TIMEOUT_MAX = 2147483647"

definition setTimeout :: "int \<Rightarrow> int \<Rightarrow> int" where
  "setTimeout now delay = now + (if delay < 1 then 1 else if TIMEOUT_MAX < delay then 1 else delay)"

definition scheduleRoomExpiry :: "int \<Rightarrow> room \<Rightarrow> room" where
  "scheduleRoomExpiry now room =
     (let r1 = clearExpiryTimer room;
          minutes = expiryMinutes r1
      in if minutes \<le> 0 then r1
         else r1\<lparr>expiryTimer := Some (setTimeout now (minutes * 60 * 1000))\<rparr>)"

text \<open>The timer's callback, \<^verbatim>\<open>rooms.delete(roomId)\<close>, runs when a timer that is still set is due.\<close>

definition timer_fire :: "int \<Rightarrow> string \<Rightarrow> server \<Rightarrow> server" where
  "timer_fire now rid s =
     (case map_of (rooms s) rid of
        None \<Rightarrow> s
      | Some r \<Rightarrow>
          (case expiryTimer r of
             None \<Rightarrow> s
           | Some due \<Rightarrow> if due \<le> now then delete_room rid s else s))"

section \<open>The join-room handler\<close>

definition new_intel :: intel_entry where
  "new_intel = \<lparr>latest_emotion_data = [], emotion_history = [], last_history_sample_time = 0\<rparr>"

text \<open>\<^verbatim>\<open>scheduledAt && Date.now() < scheduledAt\<close>: \<^verbatim>\<open>null\<close> and \<open>0\<close> are falsy.\<close>

definition not_started :: "int \<Rightarrow> int option \<Rightarrow> int option" where
  "not_started now sa =
     (case sa of
        None \<Rightarrow> None
      | Some t \<Rightarrow> if t = 0 then None else if now < t then Some t else None)"

text \<open>\<^verbatim>\<open>opts.password ? String(opts.password).trim() || null : null\<close>\<close>

definition stored_password :: "string option \<Rightarrow> string option" where
  "stored_password p =
     (case p of
        None \<Rightarrow> None
      | Some q \<Rightarrow> if q = [] then None else if trim q = [] then None else Some (trim q))"

text \<open>\<^verbatim>\<open>room.password && room.password !== (payload.password || '').trim()\<close>\<close>

definition password_rejected :: "string option \<Rightarrow> string option \<Rightarrow> bool" where
  "password_rejected roompw given =
     (case roompw of
        None \<Rightarrow> False
      | Some pw \<Rightarrow>
          if pw = [] then False
          else pw \<noteq> trim (case given of None \<Rightarrow> [] | Some q \<Rightarrow> q))"

definition create_room :: "int \<Rightarrow> string \<Rightarrow> string \<Rightarrow> string \<Rightarrow> room_options \<Rightarrow> server \<Rightarrow> server \<times> deliveries" where
  "create_room now sid rid name opts s =
     (case not_started now (opt_scheduledAt opts) of
        Some t \<Rightarrow> (s, socket_emit sid (MeetingNotStarted t))
      | None \<Rightarrow>
          let room0 = \<lparr>creatorId = sid,
                       password = stored_password (opt_password opts),
                       scheduledAt = opt_scheduledAt opts,
                       expiryMinutes = (case opt_expiryMinutes opts of
                                          Some n \<Rightarrow> n | None \<Rightarrow> DEFAULT_EXPIRY_MINUTES),
                       waitingRoom = opt_waitingRoom opts,
                       members = [],
                       pending = [],
                       expiryTimer = None,
                       intel = []\<rparr>;
              room1 = room0\<lparr>members := AList.update sid name (members room0)\<rparr>;
              room2 = room1\<lparr>intel := AList.update sid new_intel (intel room1)\<rparr>;
              s1 = set_room rid room2 s;
              s2 = set_sock sid (\<lambda>sk. socket_join rid
                     (sk\<lparr>sk_roomId := Some rid, sk_userName := Some name, sk_isHost := Some True\<rparr>)) s1
          in (s2, socket_emit sid (RoomJoined rid (getRoomParticipants room2) True sid)))"

definition join_existing :: "int \<Rightarrow> string \<Rightarrow> string \<Rightarrow> string \<Rightarrow> join_payload \<Rightarrow> room \<Rightarrow> server \<Rightarrow> server \<times> deliveries" where
  "join_existing now sid rid name p room0 s =
     (let room = clearExpiryTimer room0;
          s1 = set_room rid room s
      in if password_rejected (password room) (jp_password p)
         then (s1, socket_emit sid WrongPassword)
         else
           (case not_started now (scheduledAt room) of
              Some t \<Rightarrow> (s1, socket_emit sid (MeetingNotStarted t))
            | None \<Rightarrow>
                if waitingRoom room \<and> sid \<noteq> creatorId room
                then
                  let room1 = room\<lparr>pending := AList.update sid name (pending room)\<rparr>;
                      s2 = set_room rid room1 s1;
                      s3 = set_sock sid (\<lambda>sk. sk\<lparr>sk_roomId := Some rid, sk_userName := Some name,
                                                  sk_isHost := Some False\<rparr>) s2
                  in (s3, socket_emit sid WaitingForHost
                          @ io_to (sockets s3) (creatorId room1) (PendingJoin sid name))
                else
                  let room1 = room\<lparr>members := AList.update sid name (members room)\<rparr>;
                      room2 = room1\<lparr>intel := AList.update sid new_intel (intel room1)\<rparr>;
                      s2 = set_room rid room2 s1;
                      s3 = set_sock sid (\<lambda>sk. socket_join rid
                             (sk\<lparr>sk_roomId := Some rid, sk_userName := Some name,
                                 sk_isHost := Some (sid = creatorId room2)\<rparr>)) s2
                  in (s3, socket_emit sid
                            (RoomJoined rid (getRoomParticipants room2) (sid = creatorId room2) sid)
                          @ socket_to (sockets s3) sid rid (ParticipantJoined sid name))))"

definition join_room :: "int \<Rightarrow> string \<Rightarrow> string \<Rightarrow> string option \<Rightarrow> join_payload \<Rightarrow> server \<Rightarrow> server \<times> deliveries" where
  "join_room now sid rid userName p s =
     (case userName of
        None \<Rightarrow> (s, socket_emit sid (ErrorMsg ''Room ID and name required''))
      | Some u \<Rightarrow>
          if rid = [] then (s, socket_emit sid (ErrorMsg ''Room ID and name required''))
          else if trim u = [] then (s, socket_emit sid (ErrorMsg ''Room ID and name required''))
          else
            let name = take 50 (trim u) in
            (case map_of (rooms s) rid of
               None \<Rightarrow>
                 (case roomOptions p of
                    None \<Rightarrow> (s, socket_emit sid (ErrorMsg ''Room not found''))
                  | Some opts \<Rightarrow>
                      if isCreator p then create_room now sid rid name opts s
                      else (s, socket_emit sid (ErrorMsg ''Room not found'')))
             | Some room \<Rightarrow> join_existing now sid rid name p room s))"

section \<open>Waiting room, relay and host commands\<close>

definition admit :: "string \<Rightarrow> string \<Rightarrow> server \<Rightarrow> server \<times> deliveries" where
  "admit sid peerId s =
     (case getRoomBySocket s sid of
        None \<Rightarrow> (s, [])
      | Some (rid, room) \<Rightarrow>
          if creatorId room = sid then
            (case map_of (pending room) peerId of
               None \<Rightarrow> (s, [])
             | Some pendingData \<Rightarrow>
                 let room1 = room\<lparr>pending := AList.delete peerId (pending room)\<rparr>;
                     room2 = room1\<lparr>members := AList.update peerId pendingData (members room1)\<rparr>;
                     room3 = room2\<lparr>intel := AList.update peerId new_intel (intel room2)\<rparr>;
                     s1 = set_room rid room3 s
                 in (case map_of (sockets s1) peerId of
                       None \<Rightarrow> (s1, [])
                     | Some peer \<Rightarrow>
                         let s2 = set_sock peerId (\<lambda>sk. (socket_join rid sk)
                                    \<lparr>sk_roomId := Some rid, sk_userName := Some pendingData,
                                     sk_isHost := Some False\<rparr>) s1
                         in (s2, socket_emit peerId (Admitted rid (getRoomParticipants room3) peerId)
                                 @ socket_to (sockets s2) sid rid (ParticipantJoined peerId pendingData))))
          else (s, []))"

definition reject :: "string \<Rightarrow> string \<Rightarrow> server \<Rightarrow> server \<times> deliveries" where
  "reject sid peerId s =
     (case getRoomBySocket s sid of
        None \<Rightarrow> (s, [])
      | Some (rid, room) \<Rightarrow>
          if creatorId room = sid then
            let room1 = room\<lparr>pending := AList.delete peerId (pending room)\<rparr>;
                s1 = set_room rid room1 s
            in (s1, io_to (sockets s1) peerId Rejected)
          else (s, []))"

text \<open>The three relay handlers (lines 210--220) forward to channel \<open>targetId\<close> and touch no state.\<close>

definition offer :: "string \<Rightarrow> string \<Rightarrow> payload \<Rightarrow> server \<Rightarrow> server \<times> deliveries" where
  "offer sid targetId sdp s = (s, io_to (sockets s) targetId (Offer sid sdp))"

definition answer :: "string \<Rightarrow> string \<Rightarrow> payload \<Rightarrow> server \<Rightarrow> server \<times> deliveries" where
  "answer sid targetId sdp s = (s, io_to (sockets s) targetId (Answer sid sdp))"

definition ice_candidate :: "string \<Rightarrow> string \<Rightarrow> payload \<Rightarrow> server \<Rightarrow> server \<times> deliveries" where
  "ice_candidate sid targetId candidate s = (s, io_to (sockets s) targetId (IceCandidate sid candidate))"

definition isHost :: "server \<Rightarrow> string \<Rightarrow> bool" where
  "isHost s sid =
     (case getRoomBySocket s sid of
        None \<Rightarrow> False
      | Some (rid, room) \<Rightarrow> creatorId room = sid)"

definition mute_all :: "string \<Rightarrow> server \<Rightarrow> server \<times> deliveries" where
  "mute_all sid s =
     (case getRoomBySocket s sid of
        None \<Rightarrow> (s, [])
      | Some (rid, room) \<Rightarrow>
          if rid = [] then (s, [])
          else if isHost s sid then (s, socket_to (sockets s) sid rid MuteAudio)
          else (s, []))"

definition mute_peer :: "string \<Rightarrow> string \<Rightarrow> server \<Rightarrow> server \<times> deliveries" where
  "mute_peer sid targetId s =
     (case getRoomBySocket s sid of
        None \<Rightarrow> (s, [])
      | Some (rid, room) \<Rightarrow>
          if isHost s sid then (s, io_to (sockets s) targetId MuteAudioRequest)
          else (s, []))"

definition kick :: "string \<Rightarrow> string \<Rightarrow> server \<Rightarrow> server \<times> deliveries" where
  "kick sid targetId s =
     (case getRoomBySocket s sid of
        None \<Rightarrow> (s, [])
      | Some (rid, room) \<Rightarrow>
          if isHost s sid then
            let room1 = room\<lparr>members := AList.delete targetId (members room)\<rparr>;
                room2 = room1\<lparr>pending := AList.delete targetId (pending room1)\<rparr>;
                s1 = set_room rid room2 s
            in (case map_of (sockets s1) targetId of
                  None \<Rightarrow> (s1, [])
                | Some peer \<Rightarrow>
                    if sk_roomId peer = Some rid then
                      let s2 = set_sock targetId (\<lambda>sk. (socket_leave rid sk)\<lparr>sk_roomId := None\<rparr>) s1
                      in (s2, socket_emit targetId Kicked
                              @ io_to (sockets s2) rid (ParticipantLeft targetId))
                    else (s1, []))
          else (s, []))"

definition end_meeting :: "string \<Rightarrow> server \<Rightarrow> server \<times> deliveries" where
  "end_meeting sid s =
     (case getRoomBySocket s sid of
        None \<Rightarrow> (s, [])
      | Some (rid, room) \<Rightarrow>
          if rid = [] then (s, [])
          else if isHost s sid then
            let out = io_to (sockets s) rid MeetingEnded;
                s1 = set_room rid (clearExpiryTimer room) s
            in (delete_room rid s1, out)
          else (s, []))"

text \<open>\<^verbatim>\<open>peerId || null\<close>: the empty string counts as no spotlight.\<close>

definition spotlight :: "string \<Rightarrow> string option \<Rightarrow> server \<Rightarrow> server \<times> deliveries" where
  "spotlight sid peerId s =
     (case getRoomBySocket s sid of
        None \<Rightarrow> (s, [])
      | Some (rid, room) \<Rightarrow>
          if rid = [] then (s, [])
          else if isHost s sid then
            (s, io_to (sockets s) rid
                  (SpotlightChanged (case peerId of None \<Rightarrow> None
                                     | Some q \<Rightarrow> if q = [] then None else Some q)))
          else (s, []))"

section \<open>Telemetry\<close>

definition INTEL_HISTORY_SAMPLE_INTERVAL_MS :: rat where
  "INTEL_HISTORY_SAMPLE_INTERVAL_MS = 1000"

definition INTEL_MAX_HISTORY_LENGTH :: nat where
  "INTEL_MAX_HISTORY_LENGTH = 24 * 60 * 60"

text \<open>
  JavaScript numbers are IEEE 754 binary64 values, and every arithmetic operation yields
  the exact result rounded to the nearest such value, ties to the even significand.
  \<open>fl\<close> is that rounding on the rationals: \<open>ilog2 x\<close> is the binary exponent of a
  positive \<open>x\<close>, the spacing of the values at that exponent is \<open>pow2 (ilog2 x) / 2 ^ 52\<close>
  (a significand of 53 bits), and \<open>rne\<close> rounds to the nearest integer, ties to even.
  The exponent is not limited: the times handled here are far from the overflow and
  underflow thresholds of binary64.
\<close>

definition pow2 :: "int \<Rightarrow> rat" where
  "pow2 e = (if 0 \<le> e then 2 ^ nat e else 1 / 2 ^ nat (- e))"

definition rne :: "rat \<Rightarrow> int" where
  "rne y = (let f = \<lfloor>y\<rfloor>; r = y - of_int f
            in if r < 1 / 2 then f else if 1 / 2 < r then f + 1
               else if even f then f else f + 1)"

definition ilog2 :: "rat \<Rightarrow> int" where
  "ilog2 x = (if 1 \<le> x then int (floorlog 2 (nat \<lfloor>x\<rfloor>)) - 1
              else - int (floorlog 2 (nat (\<lceil>1 / x\<rceil> - 1))))"

definition fl_pos :: "rat \<Rightarrow> rat" where
  "fl_pos x = (let u = pow2 (ilog2 x) / 2 ^ 52 in of_int (rne (x / u)) * u)"

definition fl :: "rat \<Rightarrow> rat" where
  "fl x = (if x = 0 then 0 else if 0 < x then fl_pos x else - fl_pos (- x))"

text \<open>
  Line 305, \<^verbatim>\<open>Date.now() / 1000\<close>: the clock reading is an integer number of
  milliseconds, which a double holds exactly; the quotient is rounded.
\<close>

definition seconds :: "int \<Rightarrow> rat" where
  "seconds now = fl (of_int now / 1000)"

text \<open>
  Lines 304--310, the update of the sender's record; \<open>now\<close> is the double
  \<^verbatim>\<open>Date.now() / 1000\<close>. Line 306 compares two doubles: the rounded difference
  \<^verbatim>\<open>now - entry.last_history_sample_time\<close> and the quotient
  \<^verbatim>\<open>INTEL_HISTORY_SAMPLE_INTERVAL_MS / 1000\<close>.
\<close>

definition sample_due :: "intel_entry \<Rightarrow> rat \<Rightarrow> bool" where
  "sample_due entry now =
     (fl (now - last_history_sample_time entry) \<ge> fl (INTEL_HISTORY_SAMPLE_INTERVAL_MS / 1000))"

definition record_sample :: "intel_entry \<Rightarrow> emotion_data \<Rightarrow> rat \<Rightarrow> intel_entry" where
  "record_sample entry emotion_data now =
     (let e1 = entry\<lparr>latest_emotion_data := emotion_data\<rparr>
      in if sample_due e1 now then
           let e2 = e1\<lparr>emotion_history := emotion_history e1 @ [emotion_data]\<rparr>;
               e3 = e2\<lparr>last_history_sample_time := now\<rparr>
           in if length (emotion_history e3) > INTEL_MAX_HISTORY_LENGTH
              then e3\<lparr>emotion_history := tl (emotion_history e3)\<rparr>
              else e3
         else e1)"

text \<open>One row of the dashboard: participant id, name, current snapshot, history.\<close>

definition dashboard_row :: "room \<Rightarrow> string \<times> intel_entry \<Rightarrow> string \<times> string \<times> emotion_data \<times> emotion_data list" where
  "dashboard_row room e =
     (fst e,
      (case map_of (members room) (fst e) of Some n \<Rightarrow> n | None \<Rightarrow> take 8 (fst e)),
      latest_emotion_data (snd e),
      emotion_history (snd e))"

definition intel_metrics :: "int \<Rightarrow> string \<Rightarrow> emotion_data option \<Rightarrow> server \<Rightarrow> server \<times> deliveries" where
  "intel_metrics now sid pl s =
     (case getRoomBySocket s sid of
        None \<Rightarrow> (s, [])
      | Some (rid, room) \<Rightarrow>
          if rid = [] then (s, [])
          else
            let emotion_data = (case pl of Some a \<Rightarrow> a | None \<Rightarrow> []);
                entry = (case map_of (intel room) sid of Some e \<Rightarrow> e | None \<Rightarrow> new_intel);
                entry1 = record_sample entry emotion_data (seconds now);
                room1 = room\<lparr>intel := AList.update sid entry1 (intel room)\<rparr>;
                s1 = set_room rid room1 s
            in if creatorId room1 = [] then (s1, [])
               else (s1, io_to (sockets s1) (creatorId room1)
                           (IntelDashboard (map (dashboard_row room1) (intel room1)))))"

section \<open>Connection and disconnection\<close>

definition connect :: "string \<Rightarrow> server \<Rightarrow> server" where
  "connect sid s =
     (if map_of (sockets s) sid = None
      then s\<lparr>sockets := sockets s @ [(sid, \<lparr>sk_roomId = None, sk_userName = None,
                                            sk_isHost = None, sk_rooms = [sid]\<rparr>)]\<rparr>
      else s)"

text \<open>
  socket.io runs the \<^verbatim>\<open>disconnect\<close> handler after the socket has left all its
  channels and is gone from \<^verbatim>\<open>io.sockets.sockets\<close>; the fields stamped on the
  socket object are still readable.
\<close>

definition disconnect :: "int \<Rightarrow> string \<Rightarrow> server \<Rightarrow> server \<times> deliveries" where
  "disconnect now sid s =
     (case map_of (sockets s) sid of
        None \<Rightarrow> (s, [])
      | Some sk \<Rightarrow>
          let s0 = s\<lparr>sockets := AList.delete sid (sockets s)\<rparr> in
          (case sk_roomId sk of
             None \<Rightarrow> (s0, [])
           | Some rid \<Rightarrow>
               if rid = [] then (s0, [])
               else
                 (case map_of (rooms s0) rid of
                    None \<Rightarrow> (s0, [])
                  | Some room \<Rightarrow>
                      let wasPending = (map_of (pending room) sid \<noteq> None);
                          room1 = room\<lparr>members := AList.delete sid (members room)\<rparr>;
                          room2 = room1\<lparr>pending := AList.delete sid (pending room1)\<rparr>;
                          room3 = room2\<lparr>intel := AList.delete sid (intel room2)\<rparr>;
                          out1 = (if wasPending \<and> creatorId room3 \<noteq> []
                                  then io_to (sockets s0) (creatorId room3) (PendingLeft sid)
                                  else [])
                      in if members room3 = [] \<and> pending room3 = [] then
                           let room4 = scheduleRoomExpiry now (clearExpiryTimer room3)
                           in if expiryTimer room4 = None
                              then (delete_room rid (set_room rid room4 s0), out1)
                              else (set_room rid room4 s0, out1)
                         else (set_room rid room3 s0,
                               out1 @ io_to (sockets s0) rid (ParticipantLeft sid)))))"

section \<open>Runs of the server\<close>

datatype request =
    JoinRoom string "string option" join_payload
  | Admit string
  | Reject string
  | SendOffer string payload
  | SendAnswer string payload
  | SendIceCandidate string payload
  | MuteAll
  | MutePeer string
  | Kick string
  | EndMeeting
  | Spotlight "string option"
  | IntelMetrics "emotion_data option"

datatype input =
    Connect string
  | Request string request
  | Disconnect string
  | TimerFires string

text \<open>A handler runs only for a connected socket.\<close>

fun handle :: "int \<Rightarrow> string \<Rightarrow> request \<Rightarrow> server \<Rightarrow> server \<times> deliveries" where
  "handle now sid (JoinRoom rid userName p) s = join_room now sid rid userName p s"
| "handle now sid (Admit peerId) s = admit sid peerId s"
| "handle now sid (Reject peerId) s = reject sid peerId s"
| "handle now sid (SendOffer targetId sdp) s = offer sid targetId sdp s"
| "handle now sid (SendAnswer targetId sdp) s = answer sid targetId sdp s"
| "handle now sid (SendIceCandidate targetId c) s = ice_candidate sid targetId c s"
| "handle now sid MuteAll s = mute_all sid s"
| "handle now sid (MutePeer targetId) s = mute_peer sid targetId s"
| "handle now sid (Kick targetId) s = kick sid targetId s"
| "handle now sid EndMeeting s = end_meeting sid s"
| "handle now sid (Spotlight peerId) s = spotlight sid peerId s"
| "handle now sid (IntelMetrics pl) s = intel_metrics now sid pl s"

fun step :: "int \<Rightarrow> input \<Rightarrow> server \<Rightarrow> server \<times> deliveries" where
  "step now (Connect sid) s = (connect sid s, [])"
| "step now (Request sid req) s =
     (if map_of (sockets s) sid = None then (s, []) else handle now sid req s)"
| "step now (Disconnect sid) s = disconnect now sid s"
| "step now (TimerFires rid) s = (timer_fire now rid s, [])"

text \<open>A run: inputs with the clock reading at which each is handled; the deliveries accumulate.\<close>

definition after :: "server \<times> deliveries \<Rightarrow> server \<times> deliveries \<Rightarrow> server \<times> deliveries" where
  "after c r = (fst r, snd c @ snd r)"

fun run :: "(int \<times> input) list \<Rightarrow> server \<times> deliveries \<Rightarrow> server \<times> deliveries" where
  "run [] c = c"
| "run (e # es) c = run es (after c (step (fst e) (snd e) (fst c)))"

definition init :: server where
  "init = \<lparr>rooms = [], sockets = []\<rparr>"

section \<open>Request shapes and telemetry runs\<close>

text \<open>
  The two payloads the client sends with \<^verbatim>\<open>join-room\<close> (\<^verbatim>\<open>performJoin\<close> in
  \<^verbatim>\<open>useMeeting.js\<close>): a creating join carries the room options, a plain join
  carries a password.
\<close>

definition creating :: "string option \<Rightarrow> int option \<Rightarrow> int option \<Rightarrow> bool \<Rightarrow> join_payload" where
  "creating pw sa em w =
     \<lparr>isCreator = True,
      roomOptions = Some \<lparr>opt_password = pw, opt_scheduledAt = sa,
                          opt_expiryMinutes = em, opt_waitingRoom = w\<rparr>,
      jp_password = None\<rparr>"

definition joining :: "string option \<Rightarrow> join_payload" where
  "joining pw = \<lparr>isCreator = False, roomOptions = None, jp_password = pw\<rparr>"

text \<open>\<^verbatim>\<open>(payload.password || '')\<close>\<close>

definition given_password :: "join_payload \<Rightarrow> string" where
  "given_password p = (case jp_password p of None \<Rightarrow> [] | Some q \<Rightarrow> q)"

text \<open>
  A sequence of receptions \<open>(snapshot, clock reading in milliseconds)\<close> applied to one
  telemetry record, and the clock readings at which the record's history was appended to.
\<close>

fun receive_all :: "intel_entry \<Rightarrow> (emotion_data \<times> int) list \<Rightarrow> intel_entry" where
  "receive_all e [] = e"
| "receive_all e (r # rs) = receive_all (record_sample e (fst r) (seconds (snd r))) rs"

fun append_times :: "intel_entry \<Rightarrow> (emotion_data \<times> int) list \<Rightarrow> int list" where
  "append_times e [] = []"
| "append_times e (r # rs) =
     (if sample_due e (seconds (snd r)) then [snd r] else [])
     @ append_times (record_sample e (fst r) (seconds (snd r))) rs"

text \<open>
  What the handlers keep true of a room: no session id is a key of both \<open>members\<close> and
  \<open>pending\<close>; \<open>pending\<close> is used only when the waiting room is on; the creator is never
  pending. An input is \<open>plain\<close> unless it is a join sent by a session that is already a
  member of the room it asks for.
\<close>

definition room_ok :: "room \<Rightarrow> bool" where
  "room_ok r =
     ((\<forall>k. map_of (members r) k = None \<or> map_of (pending r) k = None)
      \<and> (waitingRoom r \<or> pending r = [])
      \<and> map_of (pending r) (creatorId r) = None)"

definition server_ok :: "server \<Rightarrow> bool" where
  "server_ok s = (\<forall>e \<in> set (rooms s). room_ok (snd e))"

fun plain_input :: "server \<Rightarrow> input \<Rightarrow> bool" where
  "plain_input s (Request sid (JoinRoom rid userName p)) =
     (case map_of (rooms s) rid of None \<Rightarrow> True | Some r \<Rightarrow> map_of (members r) sid = None)"
| "plain_input s i = True"

fun plain_run :: "server \<Rightarrow> (int \<times> input) list \<Rightarrow> bool" where
  "plain_run s [] = True"
| "plain_run s (e # es) =
     (plain_input s (snd e) \<and> plain_run (fst (step (fst e) (snd e) s)) es)"

text \<open>
  The schedule of every registered room has started at clock reading \<open>now\<close>; a list of
  inputs whose clock readings never decrease, and its last reading.
\<close>

definition sched_ok :: "int \<Rightarrow> server \<Rightarrow> bool" where
  "sched_ok now s = (\<forall>e \<in> set (rooms s). not_started now (scheduledAt (snd e)) = None)"

fun clock_ok :: "int \<Rightarrow> (int \<times> input) list \<Rightarrow> bool" where
  "clock_ok t [] = True"
| "clock_ok t (e # es) = (t \<le> fst e \<and> clock_ok (fst e) es)"

fun last_clock :: "int \<Rightarrow> (int \<times> input) list \<Rightarrow> int" where
  "last_clock t [] = t"
| "last_clock t (e # es) = last_clock (fst e) es"

text \<open>
  Three example states. \<open>lobby\<close>: room \<open>r3\<close> with password \<open>abc\<close> and a scheduled start,
  left empty by its host with the expiry timer running, and a connected session \<open>J\<close>
  that has not joined anything. \<open>anteroom\<close>: room \<open>w\<close> with a waiting room, host
  \<open>H\<close> and \<open>P\<close> waiting for admission. \<open>classroom\<close>: room \<open>r\<close> with host \<open>H\<close> and
  member \<open>B\<close>.
\<close>

definition lobby :: server where
  "lobby =
     \<lparr>rooms = [(''r3'',
         \<lparr>creatorId = ''H'', password = Some ''abc'', scheduledAt = Some 5000000,
          expiryMinutes = 15, waitingRoom = False, members = [], pending = [],
          expiryTimer = Some 6901000, intel = []\<rparr>)],
      sockets = [(''J'',
         \<lparr>sk_roomId = None, sk_userName = None, sk_isHost = None, sk_rooms = [''J'']\<rparr>)]\<rparr>"

definition anteroom :: server where
  "anteroom =
     \<lparr>rooms = [(''w'',
         \<lparr>creatorId = ''H'', password = None, scheduledAt = None,
          expiryMinutes = 30, waitingRoom = True,
          members = [(''H'', ''host'')], pending = [(''P'', ''pat'')],
          expiryTimer = None,
          intel = [(''H'', \<lparr>latest_emotion_data = [], emotion_history = [],
                              last_history_sample_time = 0\<rparr>),
                   (''P'', \<lparr>latest_emotion_data = [''old''], emotion_history = [[''old'']],
                              last_history_sample_time = 7\<rparr>)]\<rparr>)],
      sockets = [(''H'',
         \<lparr>sk_roomId = Some ''w'', sk_userName = Some ''host'', sk_isHost = Some True,
          sk_rooms = [''H'', ''w'']\<rparr>),
                 (''P'',
         \<lparr>sk_roomId = Some ''w'', sk_userName = Some ''pat'', sk_isHost = Some False,
          sk_rooms = [''P'']\<rparr>)]\<rparr>"

definition classroom :: server where
  "classroom =
     \<lparr>rooms = [(''r'',
         \<lparr>creatorId = ''H'', password = None, scheduledAt = None,
          expiryMinutes = 30, waitingRoom = False,
          members = [(''H'', ''host''), (''B'', ''bob'')], pending = [],
          expiryTimer = None,
          intel = [(''H'', \<lparr>latest_emotion_data = [], emotion_history = [],
                              last_history_sample_time = 0\<rparr>),
                   (''B'', \<lparr>latest_emotion_data = [], emotion_history = [],
                              last_history_sample_time = 0\<rparr>)]\<rparr>)],
      sockets = [(''H'',
         \<lparr>sk_roomId = Some ''r'', sk_userName = Some ''host'', sk_isHost = Some True,
          sk_rooms = [''H'', ''r'']\<rparr>),
                 (''B'',
         \<lparr>sk_roomId = Some ''r'', sk_userName = Some ''bob'', sk_isHost = Some False,
          sk_rooms = [''B'', ''r'']\<rparr>)]\<rparr>"

section \<open>Rounding to binary64\<close>

text \<open>
  The error of \<open>fl\<close>: half a unit in the last place. Below \<open>2 ^ 43\<close> in size, where
  every clock reading in seconds lies, that is at most \<open>1 / 2048\<close>; and a value that
  rounds to at least 1 is at least \<open>1 - 1 / 2 ^ 54\<close>.
\<close>

lemma pow2_pos [simp]: "0 < pow2 e"
  by (simp add: pow2_def)

lemma pow2_mono:
  assumes "a \<le> b"
  shows "pow2 a \<le> pow2 b"
proof -
  have one: "1 / 2 ^ k \<le> (1::rat)" for k :: nat
    by (simp add: divide_le_eq_1)
  have big: "(1::rat) \<le> 2 ^ k" for k :: nat
    by simp
  consider "0 \<le> a" | "a < 0" "0 \<le> b" | "b < 0"
    by linarith
  then show ?thesis
  proof cases
    case 1
    with assms show ?thesis
      by (simp add: pow2_def power_increasing)
  next
    case 2
    have "1 / 2 ^ nat (- a) \<le> (2::rat) ^ nat b"
      using one [of "nat (- a)"] big [of "nat b"] by linarith
    with 2 show ?thesis
      by (simp add: pow2_def)
  next
    case 3
    with assms have "nat (- b) \<le> nat (- a)" by simp
    then have "(2::rat) ^ nat (- b) \<le> 2 ^ nat (- a)"
      by (simp add: power_increasing)
    then have "1 / 2 ^ nat (- a) \<le> 1 / (2::rat) ^ nat (- b)"
      by (simp add: frac_le)
    with 3 assms show ?thesis
      by (simp add: pow2_def)
  qed
qed

lemma rne_error: "\<bar>of_int (rne y) - y\<bar> \<le> 1 / 2"
proof -
  have "of_int \<lfloor>y\<rfloor> \<le> y" and "y < of_int \<lfloor>y\<rfloor> + 1"
    by linarith+
  then show ?thesis
    by (auto simp add: rne_def Let_def)
qed

lemma rne_nonneg: "0 \<le> y \<Longrightarrow> 0 \<le> rne y"
  by (auto simp add: rne_def Let_def)

lemma ilog2_le:
  assumes "0 < x"
  shows "pow2 (ilog2 x) \<le> x"
proof (cases "1 \<le> x")
  case True
  define m where "m = nat \<lfloor>x\<rfloor>"
  from True have m: "0 < m" by (simp add: m_def)
  from floorlog_bounds [OF m, of 2] have "2 ^ (floorlog 2 m - 1) \<le> m" by simp
  then have "(2::rat) ^ (floorlog 2 m - 1) \<le> of_nat m"
    by (metis of_nat_le_iff of_nat_numeral of_nat_power)
  also have "of_nat m \<le> x"
    using True by (simp add: m_def)
  finally have "(2::rat) ^ (floorlog 2 m - 1) \<le> x" .
  moreover have "0 < floorlog 2 m"
    using m by (simp add: floorlog_def)
  ultimately show ?thesis
    using True by (simp add: ilog2_def pow2_def m_def nat_diff_distrib')
next
  case False
  define m where "m = nat (\<lceil>1 / x\<rceil> - 1)"
  from False assms have y: "1 < 1 / x" by simp
  then have c: "2 \<le> \<lceil>1 / x\<rceil>" by linarith
  then have m: "0 < m" by (simp add: m_def)
  from floorlog_bounds [OF m, of 2] have "m < 2 ^ floorlog 2 m" by simp
  then have "m + 1 \<le> 2 ^ floorlog 2 m" by simp
  then have "(of_nat (m + 1) :: rat) \<le> 2 ^ floorlog 2 m"
    by (metis of_nat_le_iff of_nat_numeral of_nat_power)
  moreover have "1 / x \<le> of_nat (m + 1)"
    using c by (simp add: m_def) linarith
  ultimately have "1 / x \<le> 2 ^ floorlog 2 m" by linarith
  then have "1 / 2 ^ floorlog 2 m \<le> x"
    using assms by (simp add: field_simps)
  moreover have "0 < floorlog 2 m"
    using m by (simp add: floorlog_def)
  ultimately show ?thesis
    using False by (simp add: ilog2_def pow2_def m_def)
qed

lemma ilog2_less:
  assumes "0 < x"
  shows "x < 2 * pow2 (ilog2 x)"
proof (cases "1 \<le> x")
  case True
  define m where "m = nat \<lfloor>x\<rfloor>"
  from True have m: "0 < m" by (simp add: m_def)
  have k: "0 < floorlog 2 m"
    using m by (simp add: floorlog_def)
  from floorlog_bounds [OF m, of 2] have "m < 2 ^ floorlog 2 m" by simp
  then have "m + 1 \<le> 2 ^ floorlog 2 m" by simp
  then have "(of_nat (m + 1) :: rat) \<le> 2 ^ floorlog 2 m"
    by (metis of_nat_le_iff of_nat_numeral of_nat_power)
  moreover have "x < of_nat (m + 1)"
    using True by (simp add: m_def) linarith
  ultimately have "x < 2 ^ floorlog 2 m" by linarith
  also have "(2::rat) ^ floorlog 2 m = 2 * 2 ^ (floorlog 2 m - 1)"
    using k by (cases "floorlog 2 m") simp_all
  finally show ?thesis
    using True k by (simp add: ilog2_def pow2_def m_def nat_diff_distrib')
next
  case False
  define m where "m = nat (\<lceil>1 / x\<rceil> - 1)"
  from False assms have y: "1 < 1 / x" by simp
  then have c: "2 \<le> \<lceil>1 / x\<rceil>" by linarith
  then have m: "0 < m" by (simp add: m_def)
  have k: "0 < floorlog 2 m"
    using m by (simp add: floorlog_def)
  from floorlog_bounds [OF m, of 2] have "2 ^ (floorlog 2 m - 1) \<le> m" by simp
  then have "(2::rat) ^ (floorlog 2 m - 1) \<le> of_nat m"
    by (metis of_nat_le_iff of_nat_numeral of_nat_power)
  moreover have "of_nat m < 1 / x"
    using c by (simp add: m_def) linarith
  ultimately have "2 ^ (floorlog 2 m - 1) < 1 / x" by linarith
  then have "x * 2 ^ (floorlog 2 m - 1) < 1"
    using assms by (simp add: field_simps)
  moreover have "(2::rat) ^ floorlog 2 m = 2 * 2 ^ (floorlog 2 m - 1)"
    using k by (cases "floorlog 2 m") simp_all
  ultimately have "x * 2 ^ floorlog 2 m < 2" by simp
  then have "x < 2 * (1 / 2 ^ floorlog 2 m)"
    by (simp add: field_simps)
  then show ?thesis
    using False k by (simp add: ilog2_def pow2_def m_def)
qed

lemma fl_pos_error:
  assumes "0 < x"
  shows "\<bar>fl_pos x - x\<bar> \<le> pow2 (ilog2 x) / 2 ^ 53"
proof -
  define u where "u = pow2 (ilog2 x) / 2 ^ 52"
  define r :: rat where "r = of_int (rne (x / u))"
  have u: "0 < u" by (simp add: u_def)
  have "\<bar>r - x / u\<bar> \<le> 1 / 2"
    unfolding r_def by (rule rne_error)
  then have "\<bar>r - x / u\<bar> * u \<le> 1 / 2 * u"
    using u by (simp add: mult_right_mono)
  moreover have "(r - x / u) * u = r * u - x"
    using u by (simp add: left_diff_distrib)
  then have "\<bar>r * u - x\<bar> = \<bar>r - x / u\<bar> * \<bar>u\<bar>"
    by (metis abs_mult)
  then have "\<bar>r * u - x\<bar> = \<bar>r - x / u\<bar> * u"
    using u by simp
  ultimately have "\<bar>r * u - x\<bar> \<le> 1 / 2 * u" by simp
  moreover have "fl_pos x = r * u"
    by (simp only: fl_pos_def Let_def u_def r_def)
  moreover have "1 / 2 * u = pow2 (ilog2 x) / 2 ^ 53"
    by (simp add: u_def)
  ultimately show ?thesis by simp
qed

lemma fl_pos_nonneg:
  assumes "0 < x"
  shows "0 \<le> fl_pos x"
proof -
  define u where "u = pow2 (ilog2 x) / 2 ^ 52"
  have u: "0 < u" by (simp add: u_def)
  with assms have "0 \<le> x / u" by simp
  then have "0 \<le> rne (x / u)" by (rule rne_nonneg)
  then have "0 \<le> (of_int (rne (x / u)) :: rat) * u"
    using u by simp
  moreover have "fl_pos x = of_int (rne (x / u)) * u"
    by (simp only: fl_pos_def Let_def u_def)
  ultimately show ?thesis by simp
qed

lemma fl_error:
  assumes "\<bar>x\<bar> < 2 ^ 43"
  shows "x - 1 / 2048 \<le> fl x \<and> fl x \<le> x + 1 / 2048"
proof -
  have pos: "\<bar>fl_pos y - y\<bar> \<le> 1 / 2048" if "0 < y" and "y < 2 ^ 43" for y
  proof -
    have "pow2 (ilog2 y) \<le> y" using that(1) by (rule ilog2_le)
    with that(2) have lt: "pow2 (ilog2 y) < pow2 43" by (simp add: pow2_def)
    have "ilog2 y \<le> 42"
    proof (rule ccontr)
      assume "\<not> ilog2 y \<le> 42"
      then have "43 \<le> ilog2 y" by simp
      then have "pow2 43 \<le> pow2 (ilog2 y)" by (rule pow2_mono)
      with lt show False by simp
    qed
    then have "pow2 (ilog2 y) \<le> pow2 42" by (rule pow2_mono)
    then have "pow2 (ilog2 y) / 2 ^ 53 \<le> 1 / 2048"
      by (simp add: pow2_def)
    with fl_pos_error [OF that(1)] show ?thesis by linarith
  qed
  consider "x = 0" | "0 < x" | "x < 0" by linarith
  then show ?thesis
  proof cases
    case 1
    then show ?thesis by (simp add: fl_def)
  next
    case 2
    with assms have "\<bar>fl_pos x - x\<bar> \<le> 1 / 2048"
      by (intro pos) simp_all
    moreover from 2 have "fl x = fl_pos x" by (simp add: fl_def)
    ultimately show ?thesis by linarith
  next
    case 3
    with assms have "\<bar>fl_pos (- x) - (- x)\<bar> \<le> 1 / 2048"
      by (intro pos) simp_all
    moreover from 3 have "fl x = - fl_pos (- x)" by (simp add: fl_def)
    ultimately show ?thesis by linarith
  qed
qed

lemma fl_ge_one:
  assumes "1 \<le> fl x"
  shows "1 - 1 / 2 ^ 54 \<le> x"
proof (rule ccontr)
  assume "\<not> 1 - 1 / 2 ^ 54 \<le> x"
  then have small: "x < 1 - 1 / 2 ^ 54" by simp
  consider "x = 0" | "0 < x" | "x < 0" by linarith
  then show False
  proof cases
    case 1
    with assms show False by (simp add: fl_def)
  next
    case 2
    have "pow2 (ilog2 x) \<le> x" using 2 by (rule ilog2_le)
    with small have lt: "pow2 (ilog2 x) < pow2 0" by (simp add: pow2_def)
    have "ilog2 x \<le> - 1"
    proof (rule ccontr)
      assume "\<not> ilog2 x \<le> - 1"
      then have "0 \<le> ilog2 x" by simp
      then have "pow2 0 \<le> pow2 (ilog2 x)" by (rule pow2_mono)
      with lt show False by simp
    qed
    then have "pow2 (ilog2 x) \<le> pow2 (- 1)" by (rule pow2_mono)
    then have "pow2 (ilog2 x) / 2 ^ 53 \<le> 1 / 2 ^ 54"
      by (simp add: pow2_def)
    with fl_pos_error [OF 2] have "fl_pos x \<le> x + 1 / 2 ^ 54" by linarith
    with small assms 2 show False by (simp add: fl_def)
  next
    case 3
    then have "0 \<le> fl_pos (- x)" by (simp add: fl_pos_nonneg)
    with assms 3 show False by (simp add: fl_def)
  qed
qed

text \<open>
  The gate of line 306 on clock readings in milliseconds. A time value of ECMAScript is
  an integer of size at most 8640000000000000; whenever the rounded difference of two
  of them, each divided by 1000, reaches 1, they are at least 1000 milliseconds apart.
\<close>

lemma gate_ms:
  fixes a b :: int
  assumes "\<bar>a\<bar> \<le> 8640000000000000" and "\<bar>b\<bar> \<le> 8640000000000000"
    and "1 \<le> fl (fl (of_int b / 1000) - fl (of_int a / 1000))"
  shows "a + 1000 \<le> b"
proof -
  have ra: "\<bar>(of_int a :: rat) / 1000\<bar> < 2 ^ 43"
  proof -
    have "\<bar>(of_int a :: rat)\<bar> \<le> 8640000000000000"
      using assms(1) by (metis of_int_abs of_int_le_iff of_int_numeral)
    then show ?thesis by simp
  qed
  have rb: "\<bar>(of_int b :: rat) / 1000\<bar> < 2 ^ 43"
  proof -
    have "\<bar>(of_int b :: rat)\<bar> \<le> 8640000000000000"
      using assms(2) by (metis of_int_abs of_int_le_iff of_int_numeral)
    then show ?thesis by simp
  qed
  define qa where "qa = fl (of_int a / 1000)"
  define qb where "qb = fl (of_int b / 1000)"
  from fl_ge_one [OF assms(3)]
  have d: "1 - 1 / 18014398509481984 \<le> qb - qa"
    by (simp add: qa_def qb_def)
  from fl_error [OF ra] have ea: "of_int a / 1000 - 1 / 2048 \<le> qa"
    unfolding qa_def by (rule conjunct1)
  from fl_error [OF rb] have eb: "qb \<le> of_int b / 1000 + 1 / 2048"
    unfolding qb_def by (rule conjunct2)
  from d ea eb
  have "(999 :: rat) / 1000 < of_int b / 1000 - of_int a / 1000"
    by linarith
  then have "(of_int a :: rat) + 999 < of_int b" by simp
  then have "a + 999 < b"
    by (metis of_int_add of_int_less_iff of_int_numeral)
  then show ?thesis by simp
qed

text \<open>Evaluation of \<open>fl\<close> on numerals.\<close>

lemma floor_rat_numeral: "\<lfloor>(numeral a :: rat) / numeral b\<rfloor> = numeral a div numeral b"
  using floor_divide_of_int_eq [of "numeral a" "numeral b", where ?'a = rat] by simp

lemma ceiling_rat_numeral: "\<lceil>(numeral a :: rat) / numeral b\<rceil> = - (- numeral a div numeral b)"
  using floor_divide_of_int_eq [of "- numeral a" "numeral b", where ?'a = rat]
  by (simp add: ceiling_def)

lemmas fl_eval = seconds_def fl_def fl_pos_def ilog2_def rne_def pow2_def compute_floorlog Let_def
  floor_rat_numeral ceiling_rat_numeral

lemma fl_one: "fl 1 = 1"
  by (simp add: fl_eval)

text \<open>
  The quotient 1.002 is not a double, nor is 2.002; the difference of their roundings
  is one unit in the last place below 1, so the gate stays shut 1000 milliseconds
  after an append at clock reading 1002.
\<close>

lemma seconds_1002: "seconds 1002 = 4512606826625237 / 4503599627370496"
  by (simp add: fl_eval)

lemma seconds_2002: "seconds 2002 = 4508103226997866 / 2251799813685248"
  by (simp add: fl_eval)

lemma difference_below_one: "fl (seconds 2002 - seconds 1002) = 1 - 1 / 2 ^ 52"
  by (simp add: fl_eval)

section \<open>Basic facts\<close>

lemmas handler_defs = join_room_def create_room_def join_existing_def not_started_def creating_def joining_def
  connect_def init_def trim_def is_ws_def socket_emit_def io_to_def socket_to_def in_channel_def
  socket_join_def socket_leave_def set_sock_def set_room_def delete_room_def getRoomBySocket_def
  getRoomParticipants_def clearExpiryTimer_def scheduleRoomExpiry_def setTimeout_def TIMEOUT_MAX_def
  timer_fire_def new_intel_def stored_password_def password_rejected_def admit_def reject_def
  offer_def answer_def ice_candidate_def isHost_def mute_all_def mute_peer_def kick_def end_meeting_def
  spotlight_def record_sample_def sample_due_def dashboard_row_def intel_metrics_def disconnect_def
  DEFAULT_EXPIRY_MINUTES_def INTEL_HISTORY_SAMPLE_INTERVAL_MS_def INTEL_MAX_HISTORY_LENGTH_def Let_def
  after_def fl_eval

lemma clearExpiryTimer_eq: "clearExpiryTimer r = r\<lparr>expiryTimer := None\<rparr>"
  by (cases r) (simp add: clearExpiryTimer_def)

lemma rooms_set_sock [simp]: "rooms (set_sock sid f s) = rooms s"
  by (simp add: set_sock_def)

lemma sockets_set_room [simp]: "sockets (set_room rid r s) = sockets s"
  by (simp add: set_room_def)

lemma rooms_set_room [simp]: "rooms (set_room rid r s) = AList.update rid r (rooms s)"
  by (simp add: set_room_def)

lemma set_room_twice [simp]: "set_room rid r2 (set_room rid r1 s) = set_room rid r2 s"
  by (simp add: set_room_def)

lemma map_of_update_same [simp]: "map_of (AList.update k v al) k = Some v"
  by (simp add: AList.update_conv')

lemma join_room_existing:
  assumes "rid \<noteq> []" and "trim u \<noteq> []" and "map_of (rooms s) rid = Some r"
  shows "join_room now sid rid (Some u) p s = join_existing now sid rid (take 50 (trim u)) p r s"
  using assms by (simp add: join_room_def)

lemma join_room_missing:
  assumes "rid \<noteq> []" and "trim u \<noteq> []" and "map_of (rooms s) rid = None"
    and "isCreator p" and "roomOptions p = Some opts"
  shows "join_room now sid rid (Some u) p s = create_room now sid rid (take 50 (trim u)) opts s"
  using assms by (simp add: join_room_def)

text \<open>The example state \<open>classroom\<close> is what two joins from the start produce.\<close>

lemma classroom_reachable:
  "run [(1000, Connect ''H''), (1000, Connect ''B''),
        (2000, Request ''H'' (JoinRoom ''r'' (Some ''host'') (creating None None None False))),
        (3000, Request ''B'' (JoinRoom ''r'' (Some ''bob'') (joining None)))] (init, [])
   = (classroom, [(''H'', RoomJoined ''r'' [(''H'', ''host'')] True ''H''),
                  (''B'', RoomJoined ''r'' [(''H'', ''host''), (''B'', ''bob'')] False ''B''),
                  (''H'', ParticipantJoined ''B'' ''bob'')])"
  by (simp add: handler_defs classroom_def)

section \<open>C1: members and pending\<close>

text \<open>
  The admit handler deletes the session from \<open>pending\<close> before it inserts it into
  \<open>members\<close>; kick and disconnect delete from both. The join handler inserts into
  \<open>pending\<close> without looking at \<open>members\<close>. Every handler keeps \<open>room_ok\<close> of every
  room, except a join sent by a session that is already a member of the room.
\<close>

lemma admit_moves:
  assumes "getRoomBySocket s host = Some (rid, r)" and "creatorId r = host"
    and "map_of (pending r) peer = Some n"
  shows "\<exists>r'. map_of (rooms (fst (admit host peer s))) rid = Some r'
           \<and> map_of (pending r') peer = None \<and> map_of (members r') peer = Some n"
  using assms
  by (auto simp add: admit_def Let_def AList.delete_conv' split: option.splits)

lemma set_update_subset: "set (AList.update k v al) \<subseteq> insert (k, v) (set al)"
  by (induction al) auto

lemma set_delete_subset: "set (AList.delete k al) \<subseteq> set al"
  by (auto simp add: AList.delete_eq)

lemma server_ok_set_room: "server_ok s \<Longrightarrow> room_ok r \<Longrightarrow> server_ok (set_room rid r s)"
  using set_update_subset [of rid r "rooms s"] by (auto simp add: server_ok_def set_room_def)

lemma server_ok_delete_room: "server_ok s \<Longrightarrow> server_ok (delete_room rid s)"
  using set_delete_subset [of rid "rooms s"] by (auto simp add: server_ok_def delete_room_def)

lemma server_ok_set_sock [simp]: "server_ok (set_sock sid f s) = server_ok s"
  by (simp add: server_ok_def set_sock_def)

lemma server_ok_sockets [simp]: "server_ok (s\<lparr>sockets := x\<rparr>) = server_ok s"
  by (simp add: server_ok_def)

lemma server_ok_lookup:
  assumes "server_ok s" and "map_of (rooms s) rid = Some r"
  shows "room_ok r"
proof -
  from assms(2) have "(rid, r) \<in> set (rooms s)" by (rule map_of_SomeD)
  with assms(1) show ?thesis by (force simp add: server_ok_def)
qed

lemma getRoomBySocket_in:
  assumes "getRoomBySocket s sid = Some (rid, r)"
  shows "(rid, r) \<in> set (rooms s)"
  using assms unfolding getRoomBySocket_def by (metis find_Some_iff nth_mem)

lemma server_ok_found:
  assumes "server_ok s" and "getRoomBySocket s sid = Some (rid, r)"
  shows "room_ok r"
  using assms(1) getRoomBySocket_in [OF assms(2)] by (force simp add: server_ok_def)

lemma join_room_ok:
  assumes "server_ok s" and "plain_input s (Request sid (JoinRoom rid userName p))"
  shows "server_ok (fst (join_room now sid rid userName p s))"
proof (cases "map_of (rooms s) rid")
  case None
  with assms(1) show ?thesis
    by (auto simp add: join_room_def create_room_def Let_def room_ok_def
        intro!: server_ok_set_room split: option.splits)
next
  case (Some r)
  with assms have ok: "room_ok r" and fresh: "map_of (members r) sid = None"
    by (auto intro: server_ok_lookup)
  from ok fresh have w: "sid \<noteq> creatorId r \<Longrightarrow> waitingRoom r
      \<Longrightarrow> room_ok (r\<lparr>expiryTimer := None, pending := AList.update sid n (pending r)\<rparr>)" for n
    by (auto simp add: room_ok_def AList.update_conv')
  from ok have m: "\<not> (waitingRoom r \<and> sid \<noteq> creatorId r)
      \<Longrightarrow> room_ok (r\<lparr>expiryTimer := None, members := AList.update sid n (members r),
                      intel := x\<rparr>)" for n x
    by (auto simp add: room_ok_def AList.update_conv')
  from ok have c: "room_ok (r\<lparr>expiryTimer := None\<rparr>)"
    by (simp add: room_ok_def)
  show ?thesis
    using Some assms(1) w m c
    by (auto simp add: join_room_def join_existing_def Let_def clearExpiryTimer_eq
        intro!: server_ok_set_room split: option.splits)
qed

lemma admit_ok:
  assumes "server_ok s"
  shows "server_ok (fst (admit sid peer s))"
proof (cases "getRoomBySocket s sid")
  case None
  with assms show ?thesis by (simp add: admit_def)
next
  case (Some e)
  obtain rid r where e: "e = (rid, r)" by (cases e)
  from assms Some e have ok: "room_ok r" by (auto intro: server_ok_found)
  then have "room_ok (r\<lparr>pending := AList.delete peer (pending r),
                        members := AList.update peer n (members r), intel := x\<rparr>)" for n x
    by (auto simp add: room_ok_def AList.update_conv' AList.delete_conv')
  with assms Some e show ?thesis
    by (auto simp add: admit_def Let_def intro!: server_ok_set_room split: option.splits)
qed

lemma reject_ok:
  assumes "server_ok s"
  shows "server_ok (fst (reject sid peer s))"
proof (cases "getRoomBySocket s sid")
  case None
  with assms show ?thesis by (simp add: reject_def)
next
  case (Some e)
  obtain rid r where e: "e = (rid, r)" by (cases e)
  from assms Some e have ok: "room_ok r" by (auto intro: server_ok_found)
  then have "room_ok (r\<lparr>pending := AList.delete peer (pending r)\<rparr>)"
    by (auto simp add: room_ok_def AList.delete_conv')
  with assms Some e show ?thesis
    by (auto simp add: reject_def Let_def intro!: server_ok_set_room split: option.splits)
qed

lemma kick_ok:
  assumes "server_ok s"
  shows "server_ok (fst (kick sid target s))"
proof (cases "getRoomBySocket s sid")
  case None
  with assms show ?thesis by (simp add: kick_def)
next
  case (Some e)
  obtain rid r where e: "e = (rid, r)" by (cases e)
  from assms Some e have ok: "room_ok r" by (auto intro: server_ok_found)
  then have "room_ok (r\<lparr>members := AList.delete target (members r),
                        pending := AList.delete target (pending r)\<rparr>)"
    by (auto simp add: room_ok_def AList.delete_conv')
  with assms Some e show ?thesis
    by (auto simp add: kick_def Let_def intro!: server_ok_set_room split: option.splits)
qed

lemma end_meeting_ok:
  assumes "server_ok s"
  shows "server_ok (fst (end_meeting sid s))"
proof (cases "getRoomBySocket s sid")
  case None
  with assms show ?thesis by (simp add: end_meeting_def)
next
  case (Some e)
  obtain rid r where e: "e = (rid, r)" by (cases e)
  from assms Some e have ok: "room_ok r" by (auto intro: server_ok_found)
  then have "room_ok (r\<lparr>expiryTimer := None\<rparr>)"
    by (simp add: room_ok_def)
  with assms Some e show ?thesis
    by (auto simp add: end_meeting_def Let_def clearExpiryTimer_eq
        intro!: server_ok_delete_room server_ok_set_room split: option.splits)
qed

lemma intel_metrics_ok:
  assumes "server_ok s"
  shows "server_ok (fst (intel_metrics now sid pl s))"
proof (cases "getRoomBySocket s sid")
  case None
  with assms show ?thesis by (simp add: intel_metrics_def)
next
  case (Some e)
  obtain rid r where e: "e = (rid, r)" by (cases e)
  from assms Some e have ok: "room_ok r" by (auto intro: server_ok_found)
  then have "room_ok (r\<lparr>intel := x\<rparr>)" for x
    by (simp add: room_ok_def)
  with assms Some e show ?thesis
    by (auto simp add: intel_metrics_def Let_def intro!: server_ok_set_room split: option.splits)
qed

lemma disconnect_room_ok:
  assumes "room_ok r"
  shows "room_ok (scheduleRoomExpiry now (clearExpiryTimer
            (r\<lparr>members := AList.delete sid (members r), pending := AList.delete sid (pending r),
               intel := x\<rparr>)))"
    and "room_ok (r\<lparr>members := AList.delete sid (members r), pending := AList.delete sid (pending r),
               intel := x\<rparr>)"
  using assms
  by (auto simp add: room_ok_def scheduleRoomExpiry_def clearExpiryTimer_eq Let_def
      AList.delete_conv')

lemma disconnect_ok:
  assumes "server_ok s"
  shows "server_ok (fst (disconnect now sid s))"
proof (cases "map_of (sockets s) sid")
  case None
  with assms show ?thesis by (simp add: disconnect_def)
next
  case sk: (Some sk)
  let ?s0 = "s\<lparr>sockets := AList.delete sid (sockets s)\<rparr>"
  have ok0: "server_ok ?s0" using assms by simp
  show ?thesis
  proof (cases "sk_roomId sk")
    case None
    with sk ok0 show ?thesis by (simp add: disconnect_def Let_def)
  next
    case rid: (Some rid)
    show ?thesis
    proof (cases "map_of (rooms s) rid")
      case None
      with sk rid ok0 show ?thesis by (simp add: disconnect_def Let_def)
    next
      case (Some r)
      with assms have "room_ok r" by (auto intro: server_ok_lookup)
      note oks = disconnect_room_ok [OF this]
      let ?r3 = "r\<lparr>members := AList.delete sid (members r),
                    pending := AList.delete sid (pending r),
                    intel := AList.delete sid (intel r)\<rparr>"
      let ?r4 = "scheduleRoomExpiry now (clearExpiryTimer ?r3)"
      have "fst (disconnect now sid s) = ?s0
          \<or> fst (disconnect now sid s) = delete_room rid (set_room rid ?r4 ?s0)
          \<or> fst (disconnect now sid s) = set_room rid ?r4 ?s0
          \<or> fst (disconnect now sid s) = set_room rid ?r3 ?s0"
        using sk rid Some by (simp add: disconnect_def Let_def)
      then show ?thesis
        using assms oks(1) [where now = now and sid = sid and x = "AList.delete sid (intel r)"]
          oks(2) [where sid = sid and x = "AList.delete sid (intel r)"]
        by (elim disjE) (simp_all add: server_ok_set_room server_ok_delete_room)
    qed
  qed
qed

lemma timer_fire_ok: "server_ok s \<Longrightarrow> server_ok (timer_fire now rid s)"
  by (auto simp add: timer_fire_def intro!: server_ok_delete_room split: option.splits)

lemma connect_ok: "server_ok s \<Longrightarrow> server_ok (connect sid s)"
  by (simp add: connect_def)

lemma step_ok:
  assumes "server_ok s" and "plain_input s i"
  shows "server_ok (fst (step now i s))"
proof (cases i)
  case (Connect sid)
  with assms show ?thesis by (simp add: connect_ok)
next
  case (Request sid req)
  with assms show ?thesis
    by (cases req)
       (simp_all add: join_room_ok admit_ok reject_ok kick_ok end_meeting_ok intel_metrics_ok
          offer_def answer_def ice_candidate_def mute_all_def mute_peer_def spotlight_def
          split: option.splits)
next
  case (Disconnect sid)
  with assms show ?thesis by (simp add: disconnect_ok)
next
  case (TimerFires rid)
  with assms show ?thesis by (simp add: timer_fire_ok)
qed

lemma init_ok: "server_ok init"
  by (simp add: server_ok_def init_def)

lemma run_ok:
  assumes "server_ok (fst c)" and "plain_run (fst c) es"
  shows "server_ok (fst (run es c))"
  using assms
proof (induction es arbitrary: c)
  case Nil
  then show ?case by simp
next
  case (Cons e es)
  from Cons.prems have "server_ok (fst (step (fst e) (snd e) (fst c)))"
    by (simp add: step_ok)
  with Cons.prems show ?case
    by (simp add: Cons.IH after_def)
qed

text \<open>
  Hence: in every run from the initial state in which no session re-sends a join for a
  room it is already a member of, \<open>members\<close> and \<open>pending\<close> of every room are disjoint.
\<close>

lemma plain_runs_keep_disjoint:
  assumes "plain_run init es" and "map_of (rooms (fst (run es (init, [])))) rid = Some r"
  shows "map_of (members r) k = None \<or> map_of (pending r) k = None"
proof -
  have "server_ok (fst (run es (init, [])))"
    using assms(1) by (intro run_ok) (simp_all add: init_ok)
  then have "room_ok r"
    using assms(2) by (rule server_ok_lookup)
  then show ?thesis
    by (simp add: room_ok_def)
qed

text \<open>
  C1. The claim is that no session id is ever a key of both \<open>members\<close> and \<open>pending\<close>
  of one room, after any sequence of join, admit, reject, kick and disconnect events.
  The run below breaks it: \<open>H\<close> creates room \<open>r1\<close> with the waiting room on, \<open>B\<close> asks
  to join and is put into \<open>pending\<close>, \<open>H\<close> admits \<open>B\<close>, and \<open>B\<close> sends the same join
  again on the same connection. Afterwards \<open>B\<close> is a key of \<open>members\<close> and of \<open>pending\<close>
  of \<open>r1\<close>.
\<close>

theorem C1_rejoin_lands_in_both:
  "map_option (\<lambda>r. (map fst (members r), map fst (pending r)))
     (map_of (rooms (fst (run
       [(1000, Connect ''H''), (1000, Connect ''B''),
        (2000, Request ''H'' (JoinRoom ''r1'' (Some ''host'') (creating None None None True))),
        (3000, Request ''B'' (JoinRoom ''r1'' (Some ''bob'') (joining None))),
        (4000, Request ''H'' (Admit ''B'')),
        (5000, Request ''B'' (JoinRoom ''r1'' (Some ''bob'') (joining None)))]
       (init, [])))) ''r1'')
   = Some ([''H'', ''B''], [''B''])"
  by (simp add: handler_defs)

section \<open>C2: the expiry scheduler\<close>

text \<open>
  The disconnect handler runs the scheduler when the room has become empty: the room is
  deleted at once when \<open>expiryMinutes \<le> 0\<close>, and gets a timer otherwise.
\<close>

lemma disconnect_last_session:
  assumes "map_of (sockets s) sid = Some sk" and "sk_roomId sk = Some rid" and "rid \<noteq> []"
    and "map_of (rooms s) rid = Some r"
    and "AList.delete sid (members r) = []" and "AList.delete sid (pending r) = []"
  shows "map_of (rooms (fst (disconnect now sid s))) rid =
           (if expiryMinutes r \<le> 0 then None
            else Some (r\<lparr>members := [], pending := [], intel := AList.delete sid (intel r),
                         expiryTimer := Some (setTimeout now (expiryMinutes r * 60 * 1000))\<rparr>))"
  using assms
  by (simp add: disconnect_def Let_def scheduleRoomExpiry_def clearExpiryTimer_eq delete_room_def
      AList.delete_conv')

lemma timer_fire_not_before_due:
  assumes "map_of (rooms s) rid = Some r" and "expiryTimer r = Some due" and "now < due"
  shows "timer_fire now rid s = s"
  using assms by (simp add: timer_fire_def)

lemma disconnect_reference:
  "rooms (fst (run
       [(1000, Connect ''H''),
        (2000, Request ''H'' (JoinRoom ''r1'' (Some ''host'') (creating None None (Some 0) False))),
        (4000, Disconnect ''H'')]
       (init, []))) = []
 \<and> map_option (\<lambda>r. (members r, pending r, expiryTimer r))
     (map_of (rooms (fst (run
       [(1000, Connect ''H''),
        (2000, Request ''H'' (JoinRoom ''r2'' (Some ''host'') (creating None None (Some 15) False))),
        (3000, Disconnect ''H'')]
       (init, [])))) ''r2'')
   = Some ([], [], Some 903000)"
  by (simp add: handler_defs)

text \<open>
  C2. The claim is that every event that makes a room empty, kick included, runs the
  scheduler in the same step: immediate deletion for \<open>expiryMinutes = 0\<close>, a timer for
  \<open>expiryMinutes = k > 0\<close>. The kick handler does neither. In the first run the host of
  a room with \<open>expiryMinutes = 0\<close> kicks itself and then disconnects: the room is empty,
  still registered and has no timer (the kick has reset the socket's \<open>roomId\<close>, so the
  disconnect handler returns at once). In the second run the same kick on a room with
  \<open>expiryMinutes = 15\<close> leaves an empty room without a timer.
\<close>

theorem C2_kick_leaves_empty_room:
  "map_option (\<lambda>r. (members r, pending r, expiryTimer r))
     (map_of (rooms (fst (run
       [(1000, Connect ''H''),
        (2000, Request ''H'' (JoinRoom ''r1'' (Some ''host'') (creating None None (Some 0) False))),
        (3000, Request ''H'' (Kick ''H'')),
        (4000, Disconnect ''H'')]
       (init, [])))) ''r1'')
   = Some ([], [], None)
 \<and> map_option (\<lambda>r. (members r, pending r, expiryTimer r))
     (map_of (rooms (fst (run
       [(1000, Connect ''H''),
        (2000, Request ''H'' (JoinRoom ''r2'' (Some ''host'') (creating None None (Some 15) False))),
        (3000, Request ''H'' (Kick ''H''))]
       (init, [])))) ''r2'')
   = Some ([], [], None)"
  by (simp add: handler_defs)

section \<open>C3: creating a room before its scheduled start\<close>

text \<open>
  The creation branch returns at lines 119--122, before the room object is built and
  registered (lines 123--136): a creating join whose converted \<open>scheduledAt\<close> lies in
  the future changes nothing and is answered by one \<open>meeting-not-started\<close> event.
  Only the same request sent at or after that instant creates the room.
\<close>

lemma creation_before_start_is_refused:
  assumes "rid \<noteq> []" and "trim u \<noteq> []" and "map_of (rooms s) rid = None"
    and "isCreator p" and "roomOptions p = Some opts" and "opt_scheduledAt opts = Some t"
    and "0 \<le> now" and "now < t"
  shows "join_room now sid rid (Some u) p s = (s, [(sid, MeetingNotStarted t)])
       \<and> (\<forall>later. t \<le> later \<longrightarrow>
            (\<exists>r. map_of (rooms (fst (join_room later sid rid (Some u) p s))) rid = Some r
                 \<and> creatorId r = sid \<and> scheduledAt r = Some t
                 \<and> members r = [(sid, take 50 (trim u))]))"
  using assms
  by (simp add: join_room_missing create_room_def not_started_def socket_emit_def Let_def)

text \<open>
  C3. The claim says that a creating join for a room that does not exist yet, with a
  \<open>scheduledAt\<close> in the future, registers the room and sends the creator the
  not-started signal. It does not register the room. At clock reading 2000 the
  connected session \<open>A\<close> sends a creating join for \<open>r2\<close> with \<open>scheduledAt = 601000\<close>:
  \<open>A\<close> receives \<open>meeting-not-started\<close> and the registry stays empty. At 3000 the
  connected session \<open>J\<close> sends a plain join for \<open>r2\<close> and receives the error
  \<open>Room not found\<close>, not the not-started signal. No session is in any room afterwards.
\<close>

theorem C3_scheduled_room_is_not_registered:
  "rooms (fst (run [(1000, Connect ''A''), (1000, Connect ''J''),
                    (2000, Request ''A'' (JoinRoom ''r2'' (Some ''ann'')
                             (creating None (Some 601000) None False))),
                    (3000, Request ''J'' (JoinRoom ''r2'' (Some ''joe'') (joining None)))]
                 (init, []))) = []
   \<and> snd (run [(1000, Connect ''A''), (1000, Connect ''J''),
               (2000, Request ''A'' (JoinRoom ''r2'' (Some ''ann'')
                        (creating None (Some 601000) None False))),
               (3000, Request ''J'' (JoinRoom ''r2'' (Some ''joe'') (joining None)))]
            (init, []))
       = [(''A'', MeetingNotStarted 601000), (''J'', ErrorMsg ''Room not found'')]
   \<and> map (sk_roomId \<circ> snd)
        (sockets (fst (run [(1000, Connect ''A''), (1000, Connect ''J''),
               (2000, Request ''A'' (JoinRoom ''r2'' (Some ''ann'')
                        (creating None (Some 601000) None False))),
               (3000, Request ''J'' (JoinRoom ''r2'' (Some ''joe'') (joining None)))]
            (init, [])))) = [None, None]"
  by (simp add: handler_defs)

section \<open>C4: telemetry of a re-added member\<close>

text \<open>
  C4, as the code has it. Whenever a join answers with \<open>room-joined\<close> (the session was
  put into \<open>members\<close>, by creation or by joining), and whenever the host admits a
  pending session, the session's telemetry record afterwards is the fresh one: empty
  current value, empty history, last sample time 0, whatever was recorded before.
\<close>

theorem C4_member_add_resets_telemetry:
  "(snd (join_room now sid rid userName p s) = (sid, RoomJoined rid ps h sid) # rest \<longrightarrow>
      (\<exists>r'. map_of (rooms (fst (join_room now sid rid userName p s))) rid = Some r'
           \<and> map_of (members r') sid \<noteq> None
           \<and> map_of (intel r') sid
               = Some \<lparr>latest_emotion_data = [], emotion_history = [], last_history_sample_time = 0\<rparr>))
 \<and> (getRoomBySocket s host = Some (rid, r) \<and> creatorId r = host \<and> map_of (pending r) peer = Some n \<longrightarrow>
      (\<exists>r'. map_of (rooms (fst (admit host peer s))) rid = Some r'
           \<and> map_of (members r') peer = Some n \<and> map_of (pending r') peer = None
           \<and> map_of (intel r') peer
               = Some \<lparr>latest_emotion_data = [], emotion_history = [], last_history_sample_time = 0\<rparr>))"
proof (intro conjI impI)
  assume "snd (join_room now sid rid userName p s) = (sid, RoomJoined rid ps h sid) # rest"
  then show "\<exists>r'. map_of (rooms (fst (join_room now sid rid userName p s))) rid = Some r'
           \<and> map_of (members r') sid \<noteq> None
           \<and> map_of (intel r') sid
               = Some \<lparr>latest_emotion_data = [], emotion_history = [], last_history_sample_time = 0\<rparr>"
    by (auto simp add: join_room_def create_room_def join_existing_def socket_emit_def Let_def
        new_intel_def split: option.splits if_splits)
next
  assume "getRoomBySocket s host = Some (rid, r) \<and> creatorId r = host \<and> map_of (pending r) peer = Some n"
  then show "\<exists>r'. map_of (rooms (fst (admit host peer s))) rid = Some r'
           \<and> map_of (members r') peer = Some n \<and> map_of (pending r') peer = None
           \<and> map_of (intel r') peer
               = Some \<lparr>latest_emotion_data = [], emotion_history = [], last_history_sample_time = 0\<rparr>"
    by (auto simp add: admit_def Let_def new_intel_def AList.delete_conv' split: option.splits)
qed

theorem C4_witness:
  "(\<exists>r'. map_of (rooms (fst (join_room 5000 ''B'' ''r'' (Some ''bob'') (joining None) classroom))) ''r'' = Some r'
         \<and> map_of (members r') ''B'' \<noteq> None
         \<and> map_of (intel r') ''B''
             = Some \<lparr>latest_emotion_data = [], emotion_history = [], last_history_sample_time = 0\<rparr>)
   \<and> (\<exists>r'. map_of (rooms (fst (admit ''H'' ''P'' anteroom))) ''w'' = Some r'
         \<and> map_of (members r') ''P'' = Some ''pat'' \<and> map_of (pending r') ''P'' = None
         \<and> map_of (intel r') ''P''
             = Some \<lparr>latest_emotion_data = [], emotion_history = [], last_history_sample_time = 0\<rparr>)"
proof -
  have j: "snd (join_room 5000 ''B'' ''r'' (Some ''bob'') (joining None) classroom)
          = (''B'', RoomJoined ''r'' [(''H'', ''host''), (''B'', ''bob'')] False ''B'')
            # [(''H'', ParticipantJoined ''B'' ''bob'')]"
    by (simp add: handler_defs classroom_def)
  have a: "getRoomBySocket anteroom ''H'' = Some (''w'', snd (hd (rooms anteroom)))
           \<and> creatorId (snd (hd (rooms anteroom))) = ''H''
           \<and> map_of (pending (snd (hd (rooms anteroom)))) ''P'' = Some ''pat''"
    by (simp add: anteroom_def getRoomBySocket_def)
  from j a
    C4_member_add_resets_telemetry [where now = 5000 and sid = "''B''" and rid = "''r''"
         and userName = "Some ''bob''" and p = "joining None" and s = classroom
         and ps = "[(''H'', ''host''), (''B'', ''bob'')]" and h = False
         and rest = "[(''H'', ParticipantJoined ''B'' ''bob'')]"]
    C4_member_add_resets_telemetry [where s = anteroom and host = "''H''" and rid = "''w''"
         and r = "snd (hd (rooms anteroom))" and peer = "''P''" and n = "''pat''"]
  show ?thesis by blast
qed

text \<open>
  The claim as written says that a repeated join keeps the accumulated history. Host \<open>H\<close>
  creates room \<open>r\<close> and sends one snapshot, which is appended to its history; \<open>H\<close> then
  sends the join again, and its history is empty.
\<close>

theorem C4_counterexample:
  "map_option (\<lambda>r. map_option emotion_history (map_of (intel r) ''H''))
     (map_of (rooms (fst (run
       [(1000, Connect ''H''),
        (2000, Request ''H'' (JoinRoom ''r'' (Some ''host'') (creating None None None False))),
        (4000, Request ''H'' (IntelMetrics (Some [''m1''])))]
       (init, [])))) ''r'')
   = Some (Some [[''m1'']])
 \<and> map_option (\<lambda>r. map_option emotion_history (map_of (intel r) ''H''))
     (map_of (rooms (fst (run
       [(1000, Connect ''H''),
        (2000, Request ''H'' (JoinRoom ''r'' (Some ''host'') (creating None None None False))),
        (4000, Request ''H'' (IntelMetrics (Some [''m1'']))),
        (5000, Request ''H'' (JoinRoom ''r'' (Some ''host'') (joining None)))]
       (init, [])))) ''r'')
   = Some (Some [])"
  by (simp add: handler_defs)

section \<open>C5: password gate, then schedule gate\<close>

lemma trim_Nil [simp]: "trim [] = []"
  by (simp add: trim_def)

text \<open>
  C5. A join that reaches an existing room (room id and trimmed name not empty), from
  any requester: if the room has a password and it differs from the trimmed password of
  the request, the requester gets \<open>wrong-password\<close> and nothing else, and the state is
  the old one with the room's expiry timer cleared, so \<open>members\<close> and \<open>pending\<close> are as
  before; this holds whatever the schedule says, the password is looked at first. If
  the password is absent or matches and the clock is before \<open>scheduledAt\<close>, the requester
  gets \<open>meeting-not-started\<close> with that instant, again with no other change. The stored
  password is the trimmed password of the creating request, so both sides are trimmed.
\<close>

theorem C5_password_before_schedule:
  assumes "rid \<noteq> []" and "trim u \<noteq> []" and "map_of (rooms s) rid = Some r"
  shows "(password r = Some pw \<and> pw \<noteq> [] \<and> pw \<noteq> trim (given_password p) \<longrightarrow>
            join_room now sid rid (Some u) p s
              = (s\<lparr>rooms := AList.update rid (r\<lparr>expiryTimer := None\<rparr>) (rooms s)\<rparr>,
                 [(sid, WrongPassword)]))
       \<and> ((password r = None \<or> password r = Some (trim (given_password p)))
            \<and> scheduledAt r = Some t \<and> t \<noteq> 0 \<and> now < t \<longrightarrow>
            join_room now sid rid (Some u) p s
              = (s\<lparr>rooms := AList.update rid (r\<lparr>expiryTimer := None\<rparr>) (rooms s)\<rparr>,
                 [(sid, MeetingNotStarted t)]))
       \<and> (map_of (rooms sc) rid = None \<and> trim q \<noteq> []
            \<and> (case sa of None \<Rightarrow> True | Some tc \<Rightarrow> tc \<le> nowc) \<longrightarrow>
            (\<exists>rc. map_of (rooms (fst (join_room nowc host rid (Some u)
                                        (creating (Some q) sa em w) sc))) rid = Some rc
                 \<and> password rc = Some (trim q)))"
proof (intro conjI impI)
  assume h: "password r = Some pw \<and> pw \<noteq> [] \<and> pw \<noteq> trim (given_password p)"
  then have "password_rejected (password (clearExpiryTimer r)) (jp_password p)"
    by (simp add: password_rejected_def given_password_def clearExpiryTimer_eq)
  then show "join_room now sid rid (Some u) p s
              = (s\<lparr>rooms := AList.update rid (r\<lparr>expiryTimer := None\<rparr>) (rooms s)\<rparr>,
                 [(sid, WrongPassword)])"
    using assms
    by (simp add: join_room_existing join_existing_def Let_def socket_emit_def set_room_def
        clearExpiryTimer_eq)
next
  assume h: "(password r = None \<or> password r = Some (trim (given_password p)))
            \<and> scheduledAt r = Some t \<and> t \<noteq> 0 \<and> now < t"
  then have a: "\<not> password_rejected (password (clearExpiryTimer r)) (jp_password p)"
    by (auto simp add: password_rejected_def given_password_def clearExpiryTimer_eq)
  from h have b: "not_started now (scheduledAt (clearExpiryTimer r)) = Some t"
    by (simp add: not_started_def clearExpiryTimer_eq)
  show "join_room now sid rid (Some u) p s
              = (s\<lparr>rooms := AList.update rid (r\<lparr>expiryTimer := None\<rparr>) (rooms s)\<rparr>,
                 [(sid, MeetingNotStarted t)])"
    using assms a b
    by (simp add: join_room_existing join_existing_def Let_def socket_emit_def set_room_def
        clearExpiryTimer_eq)
next
  assume h: "map_of (rooms sc) rid = None \<and> trim q \<noteq> []
            \<and> (case sa of None \<Rightarrow> True | Some tc \<Rightarrow> tc \<le> nowc)"
  then have ns: "not_started nowc sa = None"
    by (simp add: not_started_def split: option.splits)
  from h have q: "q \<noteq> []"
    by auto
  have "join_room nowc host rid (Some u) (creating (Some q) sa em w) sc
          = create_room nowc host rid (take 50 (trim u))
              \<lparr>opt_password = Some q, opt_scheduledAt = sa,
               opt_expiryMinutes = em, opt_waitingRoom = w\<rparr> sc"
    using assms(1,2) h by (simp add: join_room_def creating_def)
  then show "\<exists>rc. map_of (rooms (fst (join_room nowc host rid (Some u)
                                        (creating (Some q) sa em w) sc))) rid = Some rc
                 \<and> password rc = Some (trim q)"
    using ns q h by (simp add: create_room_def stored_password_def Let_def)
qed

theorem C5_witness:
  "join_room 1000000 ''J'' ''r3'' (Some ''joe'') (joining (Some ''xyz'')) lobby
     = (lobby\<lparr>rooms := AList.update ''r3''
           (\<lparr>creatorId = ''H'', password = Some ''abc'', scheduledAt = Some 5000000,
             expiryMinutes = 15, waitingRoom = False, members = [], pending = [],
             expiryTimer = None, intel = []\<rparr>) (rooms lobby)\<rparr>,
        [(''J'', WrongPassword)])
   \<and> join_room 1000000 ''J'' ''r3'' (Some ''joe'') (joining (Some '' abc '')) lobby
     = (lobby\<lparr>rooms := AList.update ''r3''
           (\<lparr>creatorId = ''H'', password = Some ''abc'', scheduledAt = Some 5000000,
             expiryMinutes = 15, waitingRoom = False, members = [], pending = [],
             expiryTimer = None, intel = []\<rparr>) (rooms lobby)\<rparr>,
        [(''J'', MeetingNotStarted 5000000)])
   \<and> (\<exists>rc. map_of (rooms (fst (join_room 6000000 ''H'' ''r3'' (Some ''joe'')
                (creating (Some '' abc '') (Some 5000000) (Some 15) False) (connect ''H'' init)))) ''r3''
              = Some rc
            \<and> password rc = Some ''abc'')"
  using C5_password_before_schedule [where rid = "''r3''" and u = "''joe''" and s = lobby
          and r = "\<lparr>creatorId = ''H'', password = Some ''abc'', scheduledAt = Some 5000000,
             expiryMinutes = 15, waitingRoom = False, members = [], pending = [],
             expiryTimer = Some 6901000, intel = []\<rparr>"
          and pw = "''abc''" and p = "joining (Some ''xyz'')" and now = 1000000 and sid = "''J''"
          and t = 5000000 and sc = "connect ''H'' init" and q = "'' abc ''" and sa = "Some 5000000"
          and nowc = 6000000 and host = "''H''" and em = "Some 15" and w = False]
        C5_password_before_schedule [where rid = "''r3''" and u = "''joe''" and s = lobby
          and r = "\<lparr>creatorId = ''H'', password = Some ''abc'', scheduledAt = Some 5000000,
             expiryMinutes = 15, waitingRoom = False, members = [], pending = [],
             expiryTimer = Some 6901000, intel = []\<rparr>"
          and pw = "''abc''" and p = "joining (Some '' abc '')" and now = 1000000 and sid = "''J''"
          and t = 5000000 and sc = "connect ''H'' init" and q = "'' abc ''" and sa = "Some 5000000"
          and nowc = 6000000 and host = "''H''" and em = "Some 15" and w = False]
  by (simp add: lobby_def joining_def given_password_def trim_def is_ws_def connect_def init_def)

text \<open>
  A room is registered only once its schedule has started (the creating join is refused
  before), and \<open>scheduledAt\<close> never changes. So as long as the clock does not run
  backwards, the schedule gate of the join to an existing room never fires.
\<close>

lemma not_started_mono: "not_started now sa = None \<Longrightarrow> now \<le> later \<Longrightarrow> not_started later sa = None"
  by (auto simp add: not_started_def split: option.splits if_splits)

lemma sched_ok_mono: "sched_ok now s \<Longrightarrow> now \<le> later \<Longrightarrow> sched_ok later s"
  by (auto simp add: sched_ok_def intro: not_started_mono)

lemma sched_ok_set_room:
  "sched_ok now s \<Longrightarrow> not_started now (scheduledAt r) = None \<Longrightarrow> sched_ok now (set_room rid r s)"
  using set_update_subset [of rid r "rooms s"] by (auto simp add: sched_ok_def set_room_def)

lemma sched_ok_delete_room: "sched_ok now s \<Longrightarrow> sched_ok now (delete_room rid s)"
  using set_delete_subset [of rid "rooms s"] by (auto simp add: sched_ok_def delete_room_def)

lemma sched_ok_set_sock [simp]: "sched_ok now (set_sock sid f s) = sched_ok now s"
  by (simp add: sched_ok_def set_sock_def)

lemma sched_ok_sockets [simp]: "sched_ok now (s\<lparr>sockets := x\<rparr>) = sched_ok now s"
  by (simp add: sched_ok_def)

lemma sched_ok_lookup:
  assumes "sched_ok now s" and "map_of (rooms s) rid = Some r"
  shows "not_started now (scheduledAt r) = None"
proof -
  from assms(2) have "(rid, r) \<in> set (rooms s)" by (rule map_of_SomeD)
  with assms(1) show ?thesis by (force simp add: sched_ok_def)
qed

lemma sched_ok_found:
  assumes "sched_ok now s" and "getRoomBySocket s sid = Some (rid, r)"
  shows "not_started now (scheduledAt r) = None"
  using assms(1) getRoomBySocket_in [OF assms(2)] by (force simp add: sched_ok_def)

lemma join_room_sched:
  assumes "sched_ok now s"
  shows "sched_ok now (fst (join_room now sid rid userName p s))"
proof (cases "map_of (rooms s) rid")
  case None
  with assms show ?thesis
    by (auto simp add: join_room_def create_room_def Let_def
        intro!: sched_ok_set_room split: option.splits)
next
  case (Some r)
  with assms have "not_started now (scheduledAt r) = None"
    by (auto intro: sched_ok_lookup)
  with Some assms show ?thesis
    by (auto simp add: join_room_def join_existing_def Let_def clearExpiryTimer_eq
        intro!: sched_ok_set_room split: option.splits)
qed

lemma found_sched:
  assumes "sched_ok now s"
  shows "sched_ok now (fst (admit sid peer s))"
    and "sched_ok now (fst (reject sid peer s))"
    and "sched_ok now (fst (kick sid peer s))"
    and "sched_ok now (fst (end_meeting sid s))"
    and "sched_ok now (fst (intel_metrics now sid pl s))"
proof -
  have r: "not_started now (scheduledAt r) = None" if "getRoomBySocket s sid = Some (rid, r)" for rid r
    using assms that by (rule sched_ok_found)
  show "sched_ok now (fst (admit sid peer s))"
    using assms r
    by (auto simp add: admit_def Let_def intro!: sched_ok_set_room split: option.splits)
  show "sched_ok now (fst (reject sid peer s))"
    using assms r
    by (auto simp add: reject_def Let_def intro!: sched_ok_set_room split: option.splits)
  show "sched_ok now (fst (kick sid peer s))"
    using assms r
    by (auto simp add: kick_def Let_def intro!: sched_ok_set_room split: option.splits)
  show "sched_ok now (fst (end_meeting sid s))"
    using assms r
    by (auto simp add: end_meeting_def Let_def clearExpiryTimer_eq
        intro!: sched_ok_delete_room sched_ok_set_room split: option.splits)
  show "sched_ok now (fst (intel_metrics now sid pl s))"
    using assms r
    by (auto simp add: intel_metrics_def Let_def intro!: sched_ok_set_room split: option.splits)
qed

lemma disconnect_sched:
  assumes "sched_ok now s"
  shows "sched_ok now (fst (disconnect now sid s))"
proof -
  have r: "not_started now (scheduledAt r) = None" if "map_of (rooms s) rid = Some r" for rid r
    using assms that by (rule sched_ok_lookup)
  show ?thesis
    using assms r
    by (auto simp add: disconnect_def Let_def scheduleRoomExpiry_def clearExpiryTimer_eq
        intro!: sched_ok_delete_room sched_ok_set_room split: option.splits)
qed

lemma timer_fire_sched: "sched_ok now s \<Longrightarrow> sched_ok now (timer_fire now rid s)"
  by (auto simp add: timer_fire_def intro!: sched_ok_delete_room split: option.splits)

lemma step_sched:
  assumes "sched_ok now s"
  shows "sched_ok now (fst (step now i s))"
proof (cases i)
  case (Connect sid)
  with assms show ?thesis by (simp add: connect_def)
next
  case (Request sid req)
  with assms show ?thesis
    by (cases req)
       (simp_all add: join_room_sched found_sched
          offer_def answer_def ice_candidate_def mute_all_def mute_peer_def spotlight_def
          split: option.splits)
next
  case (Disconnect sid)
  with assms show ?thesis by (simp add: disconnect_sched)
next
  case (TimerFires rid)
  with assms show ?thesis by (simp add: timer_fire_sched)
qed

lemma run_sched:
  assumes "sched_ok t (fst c)" and "clock_ok t es"
  shows "sched_ok (last_clock t es) (fst (run es c))"
  using assms
proof (induction es arbitrary: t c)
  case Nil
  then show ?case by simp
next
  case (Cons e es)
  from Cons.prems have "sched_ok (fst e) (fst c)"
    by (auto intro: sched_ok_mono)
  then have "sched_ok (fst e) (fst (step (fst e) (snd e) (fst c)))"
    by (rule step_sched)
  with Cons.prems show ?case
    by (simp add: Cons.IH after_def)
qed

lemma schedule_gate_of_existing_room_is_dead:
  assumes "clock_ok t es" and "last_clock t es \<le> now"
    and "map_of (rooms (fst (run es (init, [])))) rid = Some r"
  shows "not_started now (scheduledAt r) = None"
proof -
  have "sched_ok t (fst (init, []))"
    by (simp add: sched_ok_def init_def)
  then have "sched_ok (last_clock t es) (fst (run es (init, [])))"
    using assms(1) by (rule run_sched)
  then have "sched_ok now (fst (run es (init, [])))"
    using assms(2) by (rule sched_ok_mono)
  then show ?thesis
    using assms(3) by (rule sched_ok_lookup)
qed

section \<open>C6: privileged commands of a non-host\<close>

text \<open>
  C6. A session that is not the creator of the room it is a member of (the room
  \<^verbatim>\<open>getRoomBySocket\<close> finds), or that is a member of no room, issues mute-all,
  mute-peer, kick, end-meeting or spotlight: the server state is unchanged as a whole
  (registry, members, pending, telemetry, timers, sockets) and nothing is emitted, to
  the issuer or to anyone else.
\<close>

theorem C6_non_host_commands_do_nothing:
  assumes "case getRoomBySocket s sid of None \<Rightarrow> True | Some (rid, r) \<Rightarrow> creatorId r \<noteq> sid"
  shows "mute_all sid s = (s, []) \<and> mute_peer sid target s = (s, []) \<and> kick sid target s = (s, [])
       \<and> end_meeting sid s = (s, []) \<and> spotlight sid peer s = (s, [])"
  using assms
  by (auto simp add: mute_all_def mute_peer_def kick_def end_meeting_def spotlight_def isHost_def
      split: option.splits)

theorem C6_witness:
  "mute_all ''B'' classroom = (classroom, []) \<and> mute_peer ''B'' ''H'' classroom = (classroom, [])
   \<and> kick ''B'' ''H'' classroom = (classroom, []) \<and> end_meeting ''B'' classroom = (classroom, [])
   \<and> spotlight ''B'' (Some ''B'') classroom = (classroom, [])"
  using C6_non_host_commands_do_nothing [where s = classroom and sid = "''B''" and target = "''H''"
          and peer = "Some ''B''"]
  by (simp add: classroom_def getRoomBySocket_def)

text \<open>
  A command of any session, host or not, leaves every room it did not create as it was
  (the registry being a map, its keys are distinct).
\<close>

lemma found_is_lookup:
  assumes "distinct (map fst (rooms s))" and "getRoomBySocket s sid = Some (rid, r)"
  shows "map_of (rooms s) rid = Some r"
  using assms(1) getRoomBySocket_in [OF assms(2)] by simp

lemma host_commands_leave_other_rooms:
  assumes "distinct (map fst (rooms s))" and "map_of (rooms s) rid = Some r"
    and "creatorId r \<noteq> sid"
  shows "map_of (rooms (fst (mute_all sid s))) rid = Some r"
    and "map_of (rooms (fst (mute_peer sid target s))) rid = Some r"
    and "map_of (rooms (fst (kick sid target s))) rid = Some r"
    and "map_of (rooms (fst (end_meeting sid s))) rid = Some r"
    and "map_of (rooms (fst (spotlight sid peer s))) rid = Some r"
proof -
  have other: "rid0 \<noteq> rid"
    if "getRoomBySocket s sid = Some (rid0, r0)" and "creatorId r0 = sid" for rid0 r0
    using found_is_lookup [OF assms(1) that(1)] that(2) assms(2,3) by auto
  show "map_of (rooms (fst (mute_all sid s))) rid = Some r"
    using assms(2) by (simp add: mute_all_def split: option.splits)
  show "map_of (rooms (fst (mute_peer sid target s))) rid = Some r"
    using assms(2) by (simp add: mute_peer_def split: option.splits)
  show "map_of (rooms (fst (spotlight sid peer s))) rid = Some r"
    using assms(2) by (simp add: spotlight_def split: option.splits)
  show "map_of (rooms (fst (kick sid target s))) rid = Some r"
    using assms(2) other
    by (auto simp add: kick_def isHost_def Let_def AList.update_conv' split: option.splits)
  show "map_of (rooms (fst (end_meeting sid s))) rid = Some r"
    using assms(2) other
    by (auto simp add: end_meeting_def isHost_def Let_def delete_room_def set_room_def
        AList.update_conv' AList.delete_conv' split: option.splits)
qed

section \<open>C7: the signaling relay\<close>

text \<open>
  The three relay handlers change no state and hand exactly (sender id, payload) to
  every connected socket in the channel named by the target; they emit nothing else.
\<close>

lemma relay_to_channel:
  "offer sid target sdp s = (s, map (\<lambda>i. (i, Offer sid sdp)) (in_channel (sockets s) target))
 \<and> answer sid target sdp s = (s, map (\<lambda>i. (i, Answer sid sdp)) (in_channel (sockets s) target))
 \<and> ice_candidate sid target sdp s
      = (s, map (\<lambda>i. (i, IceCandidate sid sdp)) (in_channel (sockets s) target))"
  by (simp add: offer_def answer_def ice_candidate_def io_to_def)

lemma in_channel_member:
  "i \<in> set (in_channel socks ch) \<longleftrightarrow> (\<exists>sk. (i, sk) \<in> set socks \<and> ch \<in> set (sk_rooms sk))"
  by (force simp add: in_channel_def)

text \<open>
  A live target that is in its own channel receives the message; a target whose channel
  no connected socket is in receives nothing, and nobody else does.
\<close>

lemma relay_dropped_without_channel:
  assumes "\<forall>e \<in> set (sockets s). target \<notin> set (sk_rooms (snd e))"
  shows "offer sid target sdp s = (s, [])" and "answer sid target sdp s = (s, [])"
    and "ice_candidate sid target sdp s = (s, [])"
  using assms
  by (simp_all add: offer_def answer_def ice_candidate_def io_to_def in_channel_def
      filter_empty_conv)

lemma relay_reaches_live_target:
  assumes "map_of (sockets s) target = Some sk" and "target \<in> set (sk_rooms sk)"
  shows "(target, Offer sid sdp) \<in> set (snd (offer sid target sdp s))"
    and "(target, Answer sid sdp) \<in> set (snd (answer sid target sdp s))"
    and "(target, IceCandidate sid sdp) \<in> set (snd (ice_candidate sid target sdp s))"
proof -
  from assms(1) have "(target, sk) \<in> set (sockets s)" by (rule map_of_SomeD)
  with assms(2) have "target \<in> set (in_channel (sockets s) target)"
    by (auto simp add: in_channel_member)
  then show "(target, Offer sid sdp) \<in> set (snd (offer sid target sdp s))"
    and "(target, Answer sid sdp) \<in> set (snd (answer sid target sdp s))"
    and "(target, IceCandidate sid sdp) \<in> set (snd (ice_candidate sid target sdp s))"
    by (simp_all add: relay_to_channel)
qed

text \<open>
  C7. The claim is that a relayed message whose target has no live connection is dropped
  and reaches nobody. Sessions \<open>A\<close>, \<open>B\<close> and \<open>C\<close> are in room \<open>r4\<close>; \<open>B\<close> disconnects;
  \<open>C\<close>, who knows the id \<open>B\<close> from the roster, sends a creating join for a meeting room
  whose id is the string \<open>B\<close>, which puts \<open>C\<close> into the channel of that name. \<open>A\<close> then
  sends an ICE candidate to target \<open>B\<close>: no socket \<open>B\<close> is connected, and the candidate
  is delivered to \<open>C\<close>.
\<close>

theorem C7_relay_reaches_room_named_like_target:
  "map_of (sockets (fst (run
       [(1000, Connect ''A''), (1000, Connect ''B''), (1000, Connect ''C''),
        (2000, Request ''A'' (JoinRoom ''r4'' (Some ''ann'') (creating None None None False))),
        (3000, Request ''B'' (JoinRoom ''r4'' (Some ''bob'') (joining None))),
        (3500, Request ''C'' (JoinRoom ''r4'' (Some ''cat'') (joining None))),
        (4000, Disconnect ''B''),
        (5000, Request ''C'' (JoinRoom ''B'' (Some ''cat'') (creating None None None False)))]
       (init, [])))) ''B'' = None
 \<and> snd (step 6000 (Request ''A'' (SendIceCandidate ''B'' ''candidate''))
       (fst (run
       [(1000, Connect ''A''), (1000, Connect ''B''), (1000, Connect ''C''),
        (2000, Request ''A'' (JoinRoom ''r4'' (Some ''ann'') (creating None None None False))),
        (3000, Request ''B'' (JoinRoom ''r4'' (Some ''bob'') (joining None))),
        (3500, Request ''C'' (JoinRoom ''r4'' (Some ''cat'') (joining None))),
        (4000, Disconnect ''B''),
        (5000, Request ''C'' (JoinRoom ''B'' (Some ''cat'') (creating None None None False)))]
       (init, []))))
   = [(''C'', IceCandidate ''A'' ''candidate'')]"
  by (simp add: handler_defs)

section \<open>C8: sampling of the telemetry history\<close>

lemma latest_record_sample: "latest_emotion_data (record_sample e d t) = d"
  by (simp add: record_sample_def Let_def)

lemma last_record_sample:
  "last_history_sample_time (record_sample e d t)
     = (if sample_due e t then t else last_history_sample_time e)"
  by (simp add: record_sample_def sample_due_def Let_def)

lemma sample_due_iff: "sample_due e t \<longleftrightarrow> 1 \<le> fl (t - last_history_sample_time e)"
  by (simp add: sample_due_def INTEL_HISTORY_SAMPLE_INTERVAL_MS_def fl_one)

lemma history_record_sample:
  "emotion_history (record_sample e d t) =
     (if sample_due e t
      then (if length (emotion_history e) < INTEL_MAX_HISTORY_LENGTH
            then emotion_history e @ [d] else tl (emotion_history e @ [d]))
      else emotion_history e)"
  by (auto simp add: record_sample_def sample_due_def Let_def)

lemma max_history: "INTEL_MAX_HISTORY_LENGTH = 86400"
  by (simp add: INTEL_MAX_HISTORY_LENGTH_def)

lemma append_times_spaced:
  assumes "\<bar>l\<bar> \<le> 8640000000000000"
    and "last_history_sample_time e = seconds l"
    and "\<forall>x \<in> set rs. \<bar>snd x\<bar> \<le> 8640000000000000"
  shows "successively (\<lambda>a b. a + 1000 \<le> b) (l # append_times e rs)"
  using assms
proof (induction rs arbitrary: e l)
  case Nil
  show ?case by simp
next
  case (Cons r rs)
  from Cons.prems(3) have n: "\<bar>snd r\<bar> \<le> 8640000000000000"
    and rest: "\<forall>x \<in> set rs. \<bar>snd x\<bar> \<le> 8640000000000000"
    by simp_all
  show ?case
  proof (cases "sample_due e (seconds (snd r))")
    case True
    then have "1 \<le> fl (fl (of_int (snd r) / 1000) - fl (of_int l / 1000))"
      using Cons.prems(2) by (simp add: sample_due_iff seconds_def)
    with Cons.prems(1) n have apart: "l + 1000 \<le> snd r"
      by (rule gate_ms)
    from True have "last_history_sample_time (record_sample e (fst r) (seconds (snd r)))
                      = seconds (snd r)"
      by (simp add: last_record_sample)
    with n have "successively (\<lambda>a b. a + 1000 \<le> b)
                   (snd r # append_times (record_sample e (fst r) (seconds (snd r))) rs)"
      using rest by (rule Cons.IH)
    with True apart show ?thesis by simp
  next
    case False
    then have "last_history_sample_time (record_sample e (fst r) (seconds (snd r))) = seconds l"
      using Cons.prems(2) by (simp add: last_record_sample)
    with Cons.prems(1) have "successively (\<lambda>a b. a + 1000 \<le> b)
                   (l # append_times (record_sample e (fst r) (seconds (snd r))) rs)"
      using rest by (rule Cons.IH)
    with False show ?thesis by simp
  qed
qed

lemma history_bounded_step:
  "length (emotion_history e) \<le> INTEL_MAX_HISTORY_LENGTH
   \<Longrightarrow> length (emotion_history (record_sample e d t)) \<le> INTEL_MAX_HISTORY_LENGTH"
  by (simp add: history_record_sample)

lemma history_bounded:
  "length (emotion_history e) \<le> INTEL_MAX_HISTORY_LENGTH
   \<Longrightarrow> length (emotion_history (receive_all e rs)) \<le> INTEL_MAX_HISTORY_LENGTH"
  by (induction rs arbitrary: e) (simp_all add: history_bounded_step)

lemma receive_all_snoc:
  "receive_all e (rs @ [r]) = record_sample (receive_all e rs) (fst r) (seconds (snd r))"
  by (induction rs arbitrary: e) simp_all

lemma intel_metrics_record:
  assumes "getRoomBySocket s sid = Some (rid, r)" and "rid \<noteq> []"
  shows "\<exists>r'. map_of (rooms (fst (intel_metrics now sid pl s))) rid = Some r'
           \<and> map_of (intel r') sid
              = Some (record_sample (case map_of (intel r) sid of Some e \<Rightarrow> e | None \<Rightarrow> new_intel)
                        (case pl of Some a \<Rightarrow> a | None \<Rightarrow> []) (seconds now))"
  using assms by (simp add: intel_metrics_def Let_def)

text \<open>
  Receptions at clock readings 1002, 2002 and 2003 by a fresh record: the history is
  appended to at 1002 and at 2003, and not at 2002, where the doubles compared by
  line 306 are \<open>1 - 1 / 2 ^ 52\<close> and 1.
\<close>

lemma append_times_example:
  "append_times new_intel [([''a''], 1002), ([''b''], 2002), ([''c''], 2003)] = [1002, 2003]
   \<and> emotion_history (receive_all new_intel [([''a''], 1002), ([''b''], 2002), ([''c''], 2003)])
       = [[''a''], [''c'']]"
  by (simp add: new_intel_def record_sample_def sample_due_def
      INTEL_HISTORY_SAMPLE_INTERVAL_MS_def INTEL_MAX_HISTORY_LENGTH_def fl_eval)

text \<open>
  C8. A snapshot received from a member of a room replaces that member's telemetry
  record by \<open>record_sample\<close> of the old record (or of a fresh one), the snapshot and the
  clock reading in seconds, a double. For every record, snapshot and time: the current
  value afterwards is the snapshot received; the gate is open exactly when the rounded
  difference between the time and the record's last-sample time is at least 1; the
  history is appended to when the gate is open and is unchanged otherwise; an append
  to a history of 86400 entries drops its first (oldest) entry. Over any sequence of
  receptions, at any clock readings within the range of time values, by a record whose
  last-sample time is the clock reading \<open>l\<close> in seconds: each append is at least 1000
  milliseconds after the previous one, and the first at least 1000 milliseconds after
  \<open>l\<close>; so it is for a fresh record, as every record is created, with \<open>l = 0\<close>. Over
  any sequence of receptions the current value is the last snapshot
  received, and a history of at most 86400 entries stays within 86400 entries, as the
  history of a fresh record does.
\<close>

theorem C8_history_sampling:
  "(getRoomBySocket s sid = Some (rid, r) \<and> rid \<noteq> [] \<longrightarrow>
      (\<exists>r'. map_of (rooms (fst (intel_metrics now sid pl s))) rid = Some r'
           \<and> map_of (intel r') sid
              = Some (record_sample (case map_of (intel r) sid of Some e0 \<Rightarrow> e0 | None \<Rightarrow> new_intel)
                        (case pl of Some a \<Rightarrow> a | None \<Rightarrow> []) (seconds now))))
 \<and> latest_emotion_data (record_sample e d t) = d
 \<and> latest_emotion_data (receive_all e (rs @ [(d, n)])) = d
 \<and> (sample_due e t \<longleftrightarrow> 1 \<le> fl (t - last_history_sample_time e))
 \<and> (\<not> sample_due e t \<longrightarrow> emotion_history (record_sample e d t) = emotion_history e)
 \<and> (sample_due e t \<and> length (emotion_history e) < 86400 \<longrightarrow>
      emotion_history (record_sample e d t) = emotion_history e @ [d])
 \<and> (sample_due e t \<and> length (emotion_history e) = 86400 \<longrightarrow>
      emotion_history (record_sample e d t) = tl (emotion_history e) @ [d])
 \<and> (\<bar>l\<bar> \<le> 8640000000000000 \<and> last_history_sample_time e = seconds l
      \<and> (\<forall>x \<in> set rs. \<bar>snd x\<bar> \<le> 8640000000000000) \<longrightarrow>
      successively (\<lambda>a b. a + 1000 \<le> b) (l # append_times e rs))
 \<and> ((\<forall>x \<in> set rs. \<bar>snd x\<bar> \<le> 8640000000000000) \<longrightarrow>
      successively (\<lambda>a b. a + 1000 \<le> b) (0 # append_times new_intel rs))
 \<and> (length (emotion_history e) \<le> 86400 \<longrightarrow> length (emotion_history (receive_all e rs)) \<le> 86400)
 \<and> length (emotion_history (receive_all new_intel rs)) \<le> 86400"
proof -
  have full: "length (emotion_history e) = 86400 \<Longrightarrow> tl (emotion_history e @ [d]) = tl (emotion_history e) @ [d]"
    by (cases "emotion_history e") simp_all
  have fresh: "length (emotion_history (receive_all new_intel rs)) \<le> INTEL_MAX_HISTORY_LENGTH"
    by (rule history_bounded) (simp add: new_intel_def)
  have spaced: "\<bar>l\<bar> \<le> 8640000000000000 \<and> last_history_sample_time e = seconds l
      \<and> (\<forall>x \<in> set rs. \<bar>snd x\<bar> \<le> 8640000000000000) \<longrightarrow>
      successively (\<lambda>a b. a + 1000 \<le> b) (l # append_times e rs)"
    using append_times_spaced [of l e rs] by blast
  have started: "(\<forall>x \<in> set rs. \<bar>snd x\<bar> \<le> 8640000000000000) \<longrightarrow>
      successively (\<lambda>a b. a + 1000 \<le> b) (0 # append_times new_intel rs)"
    using append_times_spaced [of 0 new_intel rs]
    by (simp add: new_intel_def seconds_def fl_def)
  have link: "getRoomBySocket s sid = Some (rid, r) \<and> rid \<noteq> [] \<longrightarrow>
      (\<exists>r'. map_of (rooms (fst (intel_metrics now sid pl s))) rid = Some r'
           \<and> map_of (intel r') sid
              = Some (record_sample (case map_of (intel r) sid of Some e0 \<Rightarrow> e0 | None \<Rightarrow> new_intel)
                        (case pl of Some a \<Rightarrow> a | None \<Rightarrow> []) (seconds now)))"
    using intel_metrics_record [of s sid rid r now pl] by blast
  have single: "latest_emotion_data (record_sample e d t) = d
     \<and> latest_emotion_data (receive_all e (rs @ [(d, n)])) = d
     \<and> (sample_due e t \<longleftrightarrow> 1 \<le> fl (t - last_history_sample_time e))
     \<and> (\<not> sample_due e t \<longrightarrow> emotion_history (record_sample e d t) = emotion_history e)
     \<and> (sample_due e t \<and> length (emotion_history e) < 86400 \<longrightarrow>
          emotion_history (record_sample e d t) = emotion_history e @ [d])
     \<and> (sample_due e t \<and> length (emotion_history e) = 86400 \<longrightarrow>
          emotion_history (record_sample e d t) = tl (emotion_history e) @ [d])"
    using full sample_due_iff [of e t]
    by (simp add: latest_record_sample receive_all_snoc history_record_sample max_history)
  have bound: "(length (emotion_history e) \<le> 86400 \<longrightarrow> length (emotion_history (receive_all e rs)) \<le> 86400)
     \<and> length (emotion_history (receive_all new_intel rs)) \<le> 86400"
    using history_bounded [of e rs] fresh by (simp add: max_history)
  from link single spaced started bound show ?thesis
    by (intro conjI) (elim conjE, assumption)+
qed

theorem C8_witness:
  "(\<exists>r'. map_of (rooms (fst (intel_metrics 4000 ''B'' (Some [''m1'']) classroom))) ''r'' = Some r'
         \<and> map_of (intel r') ''B''
              = Some \<lparr>latest_emotion_data = [''m1''], emotion_history = [[''m1'']],
                       last_history_sample_time = 4\<rparr>)
   \<and> emotion_history (record_sample
        \<lparr>latest_emotion_data = [], emotion_history = [[''a'']], last_history_sample_time = seconds 1002\<rparr>
        [''b''] (seconds 2002)) = [[''a'']]
   \<and> emotion_history (record_sample
        \<lparr>latest_emotion_data = [], emotion_history = [[''a'']], last_history_sample_time = seconds 1002\<rparr>
        [''b''] (seconds 2003)) = [[''a''], [''b'']]
   \<and> emotion_history (record_sample
        \<lparr>latest_emotion_data = [], emotion_history = replicate 86400 [], last_history_sample_time = seconds 1002\<rparr>
        [''b''] (seconds 2003)) = tl (replicate 86400 []) @ [[''b'']]
   \<and> successively (\<lambda>a b. a + 1000 \<le> b)
        (1002 # append_times
           \<lparr>latest_emotion_data = [], emotion_history = [[''a'']], last_history_sample_time = seconds 1002\<rparr>
           [([''b''], 2002), ([''c''], 2003)])
   \<and> successively (\<lambda>a b. a + 1000 \<le> b)
        (0 # append_times new_intel [([''a''], 1002), ([''b''], 2002), ([''c''], 2003)])
   \<and> length (emotion_history (receive_all
        \<lparr>latest_emotion_data = [], emotion_history = replicate 86400 [], last_history_sample_time = seconds 1002\<rparr>
        [([''b''], 2003), ([''c''], 3003)])) \<le> 86400"
proof -
  have g: "getRoomBySocket classroom ''B'' = Some (''r'', snd (hd (rooms classroom))) \<and> ''r'' \<noteq> []"
    by (simp add: classroom_def getRoomBySocket_def)
  have v: "record_sample (case map_of (intel (snd (hd (rooms classroom)))) ''B'' of
                             Some e0 \<Rightarrow> e0 | None \<Rightarrow> new_intel)
              (case Some [''m1''] of Some a \<Rightarrow> a | None \<Rightarrow> []) (seconds 4000)
           = \<lparr>latest_emotion_data = [''m1''], emotion_history = [[''m1'']],
              last_history_sample_time = 4\<rparr>"
    by (simp add: classroom_def record_sample_def sample_due_def
        INTEL_HISTORY_SAMPLE_INTERVAL_MS_def INTEL_MAX_HISTORY_LENGTH_def fl_eval)
  have shut: "\<not> sample_due
        \<lparr>latest_emotion_data = [], emotion_history = h, last_history_sample_time = seconds 1002\<rparr>
        (seconds 2002)" for h
    by (simp add: sample_due_def INTEL_HISTORY_SAMPLE_INTERVAL_MS_def fl_eval)
  have opened: "sample_due
        \<lparr>latest_emotion_data = [], emotion_history = h, last_history_sample_time = seconds 1002\<rparr>
        (seconds 2003)" for h
    by (simp add: sample_due_def INTEL_HISTORY_SAMPLE_INTERVAL_MS_def fl_eval)
  from g v shut opened
    C8_history_sampling [where s = classroom and sid = "''B''" and rid = "''r''"
      and r = "snd (hd (rooms classroom))" and now = 4000 and pl = "Some [''m1'']"
      and e = "\<lparr>latest_emotion_data = [], emotion_history = [[''a'']], last_history_sample_time = seconds 1002\<rparr>"
      and d = "[''b'']" and t = "seconds 2002" and l = 1002 and rs = "[([''b''], 2002), ([''c''], 2003)]"]
    C8_history_sampling [where s = classroom and sid = "''B''" and rid = "''r''"
      and r = "snd (hd (rooms classroom))" and now = 4000 and pl = "Some [''m1'']"
      and e = "\<lparr>latest_emotion_data = [], emotion_history = [[''a'']], last_history_sample_time = seconds 1002\<rparr>"
      and d = "[''b'']" and t = "seconds 2003" and l = 1002
      and rs = "[([''a''], 1002), ([''b''], 2002), ([''c''], 2003)]"]
    C8_history_sampling [where s = classroom and sid = "''B''" and rid = "''r''"
      and r = "snd (hd (rooms classroom))" and now = 4000 and pl = "Some [''m1'']"
      and e = "\<lparr>latest_emotion_data = [], emotion_history = replicate 86400 [], last_history_sample_time = seconds 1002\<rparr>"
      and d = "[''b'']" and t = "seconds 2003" and l = 1002 and rs = "[([''b''], 2003), ([''c''], 3003)]"]
  show ?thesis
    by simp
qed

section \<open>C9: who receives the telemetry dashboard\<close>

text \<open>
  After a snapshot from a member, the only deliveries are \<open>intel-dashboard\<close> events,
  one to each connected socket in the channel named by the room's \<open>creatorId\<close>; a row's
  name is the member's display name, or the first 8 characters of the session id when
  the session is not in \<open>members\<close>.
\<close>

lemma intel_metrics_deliveries:
  assumes "getRoomBySocket s sid = Some (rid, r)"
  shows "\<exists>rows. snd (intel_metrics now sid pl s)
            = (if rid = [] then [] else if creatorId r = [] then []
               else map (\<lambda>i. (i, IntelDashboard rows)) (in_channel (sockets s) (creatorId r)))"
  using assms by (simp add: intel_metrics_def Let_def io_to_def)

lemma dashboard_row_name:
  "fst (snd (dashboard_row room (i, e)))
     = (case map_of (members room) i of Some n \<Rightarrow> n | None \<Rightarrow> take 8 i)"
  by (simp add: dashboard_row_def split: option.splits)

text \<open>
  C9. The claim is that no session other than the creator is ever sent another
  participant's telemetry. \<open>H\<close> creates room \<open>r\<close> and \<open>M\<close> joins it. \<open>M\<close>, who knows the
  id \<open>H\<close> from the roster, then sends a creating join for a meeting room whose id is the
  string \<open>H\<close>, which puts \<open>M\<close> into the channel of that name. When \<open>H\<close> sends a snapshot,
  the dashboard with the telemetry of \<open>H\<close> is delivered to \<open>H\<close> and to \<open>M\<close>, who is not
  the creator of \<open>r\<close>.
\<close>

theorem C9_dashboard_reaches_room_named_like_creator:
  "snd (step 4000 (Request ''H'' (IntelMetrics (Some [''m1''])))
       (fst (run
       [(1000, Connect ''H''), (1000, Connect ''M''),
        (2000, Request ''H'' (JoinRoom ''r'' (Some ''host'') (creating None None None False))),
        (2500, Request ''M'' (JoinRoom ''r'' (Some ''mia'') (joining None))),
        (3000, Request ''M'' (JoinRoom ''H'' (Some ''mia'') (creating None None None False)))]
       (init, []))))
   = [(''H'', IntelDashboard [(''H'', ''host'', [''m1''], [[''m1'']]), (''M'', ''mia'', [], [])]),
      (''M'', IntelDashboard [(''H'', ''host'', [''m1''], [[''m1'']]), (''M'', ''mia'', [], [])])]"
  by (simp add: handler_defs)

section \<open>C10: a join clears the expiry timer before the gates\<close>

text \<open>
  C10. A join that reaches an existing room (room id and trimmed name not empty) leaves
  that room registered with no expiry timer, whichever way the gates decide. If the
  join is refused, that is, the only delivery is \<open>wrong-password\<close> or
  \<open>meeting-not-started\<close> to the requester, then the state afterwards is the state before
  with that room's timer cleared: members, pending, telemetry, the other rooms and the
  sockets are unchanged, and no timer has been started.
\<close>

theorem C10_join_clears_expiry_timer:
  assumes "rid \<noteq> []" and "trim u \<noteq> []" and "map_of (rooms s) rid = Some r"
  shows "(\<exists>r'. map_of (rooms (fst (join_room now sid rid (Some u) p s))) rid = Some r'
              \<and> expiryTimer r' = None)
       \<and> (snd (join_room now sid rid (Some u) p s) = [(sid, WrongPassword)]
            \<or> (\<exists>t. snd (join_room now sid rid (Some u) p s) = [(sid, MeetingNotStarted t)])
          \<longrightarrow> fst (join_room now sid rid (Some u) p s)
                = s\<lparr>rooms := AList.update rid (r\<lparr>expiryTimer := None\<rparr>) (rooms s)\<rparr>)"
  using assms
  by (auto simp add: join_room_existing join_existing_def clearExpiryTimer_eq
      socket_emit_def set_room_def Let_def getRoomParticipants_def split: option.splits)

theorem C10_witness:
  "(\<exists>r'. map_of (rooms (fst (join_room 1000000 ''J'' ''r3'' (Some ''joe'') (joining (Some ''xyz'')) lobby))) ''r3'' = Some r'
         \<and> expiryTimer r' = None)
   \<and> snd (join_room 1000000 ''J'' ''r3'' (Some ''joe'') (joining (Some ''xyz'')) lobby) = [(''J'', WrongPassword)]
   \<and> fst (join_room 1000000 ''J'' ''r3'' (Some ''joe'') (joining (Some ''xyz'')) lobby)
       = lobby\<lparr>rooms := AList.update ''r3''
           (\<lparr>creatorId = ''H'', password = Some ''abc'', scheduledAt = Some 5000000,
             expiryMinutes = 15, waitingRoom = False, members = [], pending = [],
             expiryTimer = None, intel = []\<rparr>) (rooms lobby)\<rparr>"
proof -
  have w: "snd (join_room 1000000 ''J'' ''r3'' (Some ''joe'') (joining (Some ''xyz'')) lobby) = [(''J'', WrongPassword)]"
    by (simp add: handler_defs lobby_def)
  with C10_join_clears_expiry_timer [where rid = "''r3''" and u = "''joe''" and s = lobby
          and r = "\<lparr>creatorId = ''H'', password = Some ''abc'', scheduledAt = Some 5000000,
             expiryMinutes = 15, waitingRoom = False, members = [], pending = [],
             expiryTimer = Some 6901000, intel = []\<rparr>"
          and p = "joining (Some ''xyz'')" and now = 1000000 and sid = "''J''"]
  show ?thesis
    by (simp add: lobby_def trim_def is_ws_def)
qed

end
